theory Spec2Isabelle
  imports Complex_Main
begin

section \<open>PowerShell string primitives used by preprovision.ps1\<close>

text \<open>
  Strings are byte strings; a PowerShell value that may be \<open>$null\<close> is a
  \<open>string option\<close>. \<open>[char]::IsWhiteSpace\<close> on the ASCII range is the blank and the
  control characters U+0009 .. U+000D; white space beyond ASCII is not represented.
\<close>

definition IsWhiteSpace :: "char \<Rightarrow> bool" where
  "IsWhiteSpace c =
     (c \<in> set [CHR '' '', CHR 0x09, CHR 0x0A, CHR 0x0B, CHR 0x0C, CHR 0x0D])"

definition IsNullOrWhiteSpace :: "string option \<Rightarrow> bool" where
  "IsNullOrWhiteSpace s = (case s of None \<Rightarrow> True | Some v \<Rightarrow> list_all IsWhiteSpace v)"

definition Trim :: "string \<Rightarrow> string" where
  "Trim s = rev (dropWhile IsWhiteSpace (rev (dropWhile IsWhiteSpace s)))"

text \<open>\<open>if ($x) { $x.ToString().Trim() } else { $null }\<close>: a string is truthy when it
  is neither \<open>$null\<close> nor empty.\<close>

definition trim_if_set :: "string option \<Rightarrow> string option" where
  "trim_if_set x = (case x of None \<Rightarrow> None | Some v \<Rightarrow> if v = [] then None else Some (Trim v))"

text \<open>PowerShell compares and matches strings without regard to letter case; the
  folding below is the one of the ASCII letters.\<close>

definition to_lower :: "char \<Rightarrow> char" where
  "to_lower c =
     (case map_of (zip ''ABCDEFGHIJKLMNOPQRSTUVWXYZ'' ''abcdefghijklmnopqrstuvwxyz'') c of
        Some l \<Rightarrow> l | None \<Rightarrow> c)"

definition ps_eq :: "string \<Rightarrow> string \<Rightarrow> bool" where
  "ps_eq a b = (map to_lower a = map to_lower b)"

fun starts_with :: "string \<Rightarrow> string \<Rightarrow> bool" where
  "starts_with [] t = True"
| "starts_with (p # ps) [] = False"
| "starts_with (p # ps) (c # cs) = (p = c \<and> starts_with ps cs)"

fun contains :: "string \<Rightarrow> string \<Rightarrow> bool" where
  "contains p [] = (p = [])"
| "contains p (c # cs) = (starts_with p (c # cs) \<or> contains p cs)"

text \<open>\<open>$text -match 'literal'\<close> for a pattern without metacharacters: the pattern occurs
  somewhere in the text, letter case ignored.\<close>

definition ps_match :: "string \<Rightarrow> string \<Rightarrow> bool" where
  "ps_match text pat = contains (map to_lower pat) (map to_lower text)"

text \<open>\<open>"a/b/c".Split('/')\<close> and the index \<open>[-1]\<close>, the last piece. The split of any string
  has at least one piece.\<close>

fun Split :: "char \<Rightarrow> string \<Rightarrow> string list" where
  "Split d [] = [[]]"
| "Split d (c # cs) =
     (if c = d then [] # Split d cs
      else (case Split d cs of p # ps \<Rightarrow> (c # p) # ps | [] \<Rightarrow> [[c]]))"

fun last_piece :: "string list \<Rightarrow> string" where
  "last_piece [] = []"
| "last_piece [p] = p"
| "last_piece (p # q # ps) = last_piece (q # ps)"

text \<open>\<open>[int]::TryParse\<close>: optional white space around an optional sign and at least one
  decimal digit, the value within the 32-bit signed range.\<close>

definition digit_value :: "char \<Rightarrow> nat option" where
  "digit_value c = map_of (zip ''0123456789'' [0, 1, 2, 3, 4, 5, 6, 7, 8, 9]) c"

fun digits_value :: "nat \<Rightarrow> string \<Rightarrow> nat option" where
  "digits_value acc [] = Some acc"
| "digits_value acc (c # cs) =
     (case digit_value c of None \<Rightarrow> None | Some d \<Rightarrow> digits_value (10 * acc + d) cs)"

definition TryParse :: "string \<Rightarrow> int option" where
  "TryParse s =
     (let t = Trim s;
          neg = starts_with ''-'' t;
          ds = (if starts_with ''-'' t \<or> starts_with ''+'' t then tl t else t)
      in if ds = [] then None
         else (case digits_value 0 ds of
                 None \<Rightarrow> None
               | Some n \<Rightarrow>
                   (let v = (if neg then - int n else int n)
                    in if - 2147483648 \<le> v \<and> v \<le> 2147483647 then Some v else None)))"

section \<open>Discovered entities\<close>

record ResourceCandidate =
  r_name :: string
  r_resourceGroup :: string
  r_location :: string
  r_id :: string

record ProjectCandidate =
  p_name :: string

record AgentDescriptor =
  a_name :: string

text \<open>Console output that matters to the run's contract: a yellow \<open>[!]\<close> line of
  \<open>Write-Host\<close> is a \<open>Warning\<close>, a line printed under it as part of the same message is a
  \<open>Detail\<close>, a message of \<open>Write-Error\<close> is an \<open>Error\<close>, and \<open>AzdSetFailed key\<close> stands for
  what azd itself prints when \<open>azd env set key ...\<close> fails (the wording is azd's). Blank
  lines and progress lines are not recorded.\<close>

datatype Event = Warning string | Detail string | Error string | AzdSetFailed string

section \<open>Resource selection (preprovision.ps1, lines 239--269)\<close>

datatype Selection =
    Selected ResourceCandidate
  | AmbiguousNeedsInput "ResourceCandidate list"
  | NotFound

text \<open>\<open>@($aiFoundryResources | Where-Object { $_.name -eq $configuredResourceName })\<close>,
  empty when the hint is blank (line 249).\<close>

definition matched_by_name :: "ResourceCandidate list \<Rightarrow> string option \<Rightarrow> ResourceCandidate list" where
  "matched_by_name rs existingName =
     (case trim_if_set existingName of
        None \<Rightarrow> []
      | Some cn \<Rightarrow> if IsNullOrWhiteSpace (Some cn) then [] else filter (\<lambda>r. ps_eq (r_name r) cn) rs)"

definition matched_by_group :: "ResourceCandidate list \<Rightarrow> string option \<Rightarrow> ResourceCandidate list" where
  "matched_by_group rs existingGroup =
     (case trim_if_set existingGroup of
        None \<Rightarrow> []
      | Some cg \<Rightarrow> if IsNullOrWhiteSpace (Some cg) then [] else filter (\<lambda>r. ps_eq (r_resourceGroup r) cg) rs)"

definition name_warnings :: "ResourceCandidate list \<Rightarrow> string option \<Rightarrow> Event list" where
  "name_warnings rs existingName =
     (case trim_if_set existingName of
        None \<Rightarrow> []
      | Some cn \<Rightarrow>
          if IsNullOrWhiteSpace (Some cn) then []
          else if matched_by_name rs existingName = []
          then [Warning (''[!]  Configured AI_FOUNDRY_RESOURCE_NAME '' @ [CHR 0x27] @ cn @ [CHR 0x27]
                          @ '' not found in current subscription.'')]
          else [])"

definition group_warnings :: "ResourceCandidate list \<Rightarrow> string option \<Rightarrow> Event list" where
  "group_warnings rs existingGroup =
     (case trim_if_set existingGroup of
        None \<Rightarrow> []
      | Some cg \<Rightarrow>
          if IsNullOrWhiteSpace (Some cg) then []
          else (case matched_by_group rs existingGroup of
                  [] \<Rightarrow> [Warning (''[!]  Configured AI_FOUNDRY_RESOURCE_GROUP '' @ [CHR 0x27] @ cg @ [CHR 0x27]
                                  @ '' not found in current subscription.'')]
                | [m] \<Rightarrow> []
                | m # m' # ms \<Rightarrow>
                    [Warning (''[!]  Multiple AI Foundry resources exist in resource group ''
                              @ [CHR 0x27] @ cg @ [CHR 0x27] @ ''.'')]))"

text \<open>The decision of lines 215 and 239--269: no candidate, the single candidate, the first
  candidate the name hint matches, the only candidate the group hint matches, or none
  of these. The second component is what the script prints on the way.\<close>

fun Selector :: "ResourceCandidate list \<Rightarrow> string option \<Rightarrow> string option \<Rightarrow> Selection \<times> Event list" where
  "Selector [] existingName existingGroup = (NotFound, [])"
| "Selector [r] existingName existingGroup = (Selected r, [])"
| "Selector (r # r' # rs) existingName existingGroup =
     (case matched_by_name (r # r' # rs) existingName of
        m # ms \<Rightarrow> (Selected m, [])
      | [] \<Rightarrow>
          (case matched_by_group (r # r' # rs) existingGroup of
             [m] \<Rightarrow> (Selected m, name_warnings (r # r' # rs) existingName)
           | _ \<Rightarrow> (AmbiguousNeedsInput (r # r' # rs),
                   name_warnings (r # r' # rs) existingName
                   @ group_warnings (r # r' # rs) existingGroup)))"


section \<open>Interactive selection (function Select-Index, lines 69--122)\<close>

text \<open>What the PowerShell host offers: \<open>$Host.UI.PromptForChoice\<close> may be missing, throw, or
  return an index; \<open>Read-Host\<close> may throw or return the line typed.\<close>

datatype PromptForChoice = PromptMissing | PromptThrows | PromptReturns int

datatype ReadHost = ReadHostThrows | ReadHostReturns string

record Host =
  promptForChoice :: PromptForChoice
  readHost :: ReadHost

definition Select_Index_ReadHost :: "nat \<Rightarrow> Host \<Rightarrow> int" where
  "Select_Index_ReadHost count h =
     (case readHost h of
        ReadHostThrows \<Rightarrow> - 1
      | ReadHostReturns selection \<Rightarrow>
          (case TryParse selection of
             None \<Rightarrow> - 1
           | Some selectionNum \<Rightarrow>
               if 1 \<le> selectionNum \<and> selectionNum \<le> int count then selectionNum - 1 else - 1))"

definition Select_Index :: "'a list \<Rightarrow> Host \<Rightarrow> int" where
  "Select_Index Items h =
     (case promptForChoice h of
        PromptReturns selected \<Rightarrow>
          if 0 \<le> selected \<and> selected < int (length Items) then selected
          else Select_Index_ReadHost (length Items) h
      | PromptThrows \<Rightarrow> Select_Index_ReadHost (length Items) h
      | PromptMissing \<Rightarrow> Select_Index_ReadHost (length Items) h)"

text \<open>Lines 279--282.\<close>

definition unable_to_prompt :: "Event list" where
  "unable_to_prompt =
     [Warning ''[!]  Unable to prompt for selection (non-interactive host).'',
      Detail ''   Falling back to the first resource. To override, set:'',
      Detail ''     azd env set AI_FOUNDRY_RESOURCE_NAME <resource-name>'',
      Detail ''     # (optional) azd env set AI_FOUNDRY_RESOURCE_GROUP <resource-group>'']"

text \<open>Lines 239--290: the resource the orchestrator goes on with, \<open>None\<close> when the listing is
  empty. \<open>$aiFoundryResources[0]\<close> is the head of the listing and
  \<open>$aiFoundryResources[$selectedIndex]\<close> is read only for an index Select-Index returned
  as non-negative.\<close>

fun choose_resource ::
  "Host \<Rightarrow> ResourceCandidate list \<Rightarrow> string option \<Rightarrow> string option
     \<Rightarrow> ResourceCandidate option \<times> Event list" where
  "choose_resource h [] existingName existingGroup = (None, [])"
| "choose_resource h (r # rs) existingName existingGroup =
     (case Selector (r # rs) existingName existingGroup of
        (Selected m, ws) \<Rightarrow> (Some m, ws)
      | (NotFound, ws) \<Rightarrow> (None, ws)
      | (AmbiguousNeedsInput cs, ws) \<Rightarrow>
          (let selectedIndex = Select_Index (r # rs) h
           in if selectedIndex < 0 then (Some r, ws @ unable_to_prompt)
              else (Some ((r # rs) ! nat selectedIndex), ws)))"

section \<open>The environment of a run\<close>

type_synonym ConfigStore = "string \<rightharpoonup> string"

text \<open>\<open>az account show | ConvertFrom-Json\<close>; a missing field is the empty string.\<close>

record Account =
  user_name :: string
  tenantId :: string
  subscription_id :: string

datatype RegistrationResult = RegistrationThrows string | RegistrationReturns "string option"

datatype AgentsResult = AgentsThrow | Agents "AgentDescriptor list"

datatype Call = RegisterApp string | ListResources | ListProjects string | ListAgents string

text \<open>
  Everything outside the script: the tools it calls and the variables it reads.
  \<^item> \<open>az_available\<close>: \<open>Get-Command az\<close> finds the Azure CLI; \<open>account\<close>: what
    \<open>az account show\<close> returns, \<open>None\<close> when not logged in.
  \<^item> \<open>env_AZURE_ENV_NAME\<close>, \<open>env_ENTRA_SERVICE_MANAGEMENT_REFERENCE\<close>: the process
    environment variables of these names.
  \<^item> \<open>azd_write_ok k\<close>: whether \<open>azd env set k ...\<close> succeeds. The script calls the tool
    as a native command and never looks at its exit code.
  \<^item> \<open>New_EntraAppRegistration\<close> and \<open>Get_AIFoundryAgents\<close>: the hook's module scripts
    \<open>modules/New-EntraAppRegistration.ps1\<close> (app name, tenant id, optional service
    management reference) and \<open>modules/Get-AIFoundryAgents.ps1\<close> (project endpoint). Both
    are parameters here: each may throw or return.
  \<^item> \<open>cognitiveservices_account_list\<close>: the resources of kind \<open>AIServices\<close> that
    \<open>az cognitiveservices account list\<close> returns; \<open>projects_of\<close>: the projects that
    \<open>az rest\<close> returns for a resource id; both are empty when the tool fails.
  \<^item> \<open>role_assignment_list\<close>: the role names \<open>az role assignment list\<close> prints for a
    scope and an assignee.
  \<^item> \<open>ui\<close>: the PowerShell host; \<open>culture_le\<close>: the string order of \<open>Sort-Object\<close>.
\<close>

record World =
  az_available :: bool
  account :: "Account option"
  env_AZURE_ENV_NAME :: "string option"
  env_ENTRA_SERVICE_MANAGEMENT_REFERENCE :: "string option"
  azd_write_ok :: "string \<Rightarrow> bool"
  New_EntraAppRegistration :: "string \<Rightarrow> string \<Rightarrow> string option \<Rightarrow> RegistrationResult"
  cognitiveservices_account_list :: "ResourceCandidate list"
  projects_of :: "string \<Rightarrow> ProjectCandidate list"
  Get_AIFoundryAgents :: "string \<Rightarrow> AgentsResult"
  role_assignment_list :: "string \<Rightarrow> string \<Rightarrow> string list"
  ui :: Host
  culture_le :: "string \<Rightarrow> string \<Rightarrow> bool"

text \<open>What a run changes: the azd environment, the files it writes (a file is the list
  of its lines, none of which holds a line break; \<open>Out-File -Force\<close> is taken to
  succeed), the provider calls it made and what it printed.\<close>

record State =
  config :: ConfigStore
  files :: "string \<rightharpoonup> string list"
  calls :: "Call list"
  events :: "Event list"

datatype 'a Step = Exit1 State | Next 'a State

definition emit :: "Event list \<Rightarrow> State \<Rightarrow> State" where
  "emit es s = s\<lparr>events := events s @ es\<rparr>"

definition call :: "Call \<Rightarrow> State \<Rightarrow> State" where
  "call c s = s\<lparr>calls := calls s @ [c]\<rparr>"

text \<open>The azd environment is the ConfigStore of the specification: a map from keys to
  values, read with \<open>azd env get-value\<close> and written with \<open>azd env set\<close>. How azd keeps
  it on disk is azd's matter and is not modelled; the files the script writes are a
  separate component of the state.

  \<open>azd env get-value KEY 2>&1\<close> prints the value of a key that is set and an error
  line on the error stream otherwise; values are single lines.\<close>

definition azd_env_get_value :: "ConfigStore \<Rightarrow> string \<Rightarrow> string list" where
  "azd_env_get_value cfg key =
     (case cfg key of
        Some v \<Rightarrow> [v]
      | None \<Rightarrow> [''ERROR: key '' @ [CHR 0x27] @ key @ [CHR 0x27] @ '' not found in the environment values''])"

text \<open>\<open>(azd env get-value KEY 2>&1) | Where-Object { $_ -notmatch 'ERROR' } | Select-Object -First 1\<close>\<close>

definition get_value :: "ConfigStore \<Rightarrow> string \<Rightarrow> string option" where
  "get_value cfg key =
     (case filter (\<lambda>l. \<not> ps_match l ''ERROR'') (azd_env_get_value cfg key) of
        [] \<Rightarrow> None
      | l # ls \<Rightarrow> Some l)"

text \<open>\<open>azd env set KEY VALUE\<close>, called as a bare native command: on success the key holds
  the value; on failure nothing is stored, azd prints its error to the console, and the
  script goes on with its next line.\<close>

definition azd_env_set :: "World \<Rightarrow> string \<Rightarrow> string \<Rightarrow> State \<Rightarrow> State" where
  "azd_env_set w key v s =
     (if azd_write_ok w key then s\<lparr>config := (config s)(key \<mapsto> v)\<rparr>
      else s\<lparr>events := events s @ [AzdSetFailed key]\<rparr>)"


section \<open>Prerequisites and identity (lines 11--154, 512--531)\<close>

definition configured_envName :: "World \<Rightarrow> State \<Rightarrow> string option" where
  "configured_envName w s =
     (let envName = trim_if_set (get_value (config s) ''AZURE_ENV_NAME'')
      in if IsNullOrWhiteSpace envName then env_AZURE_ENV_NAME w else envName)"

text \<open>Lines 14--58: the environment name and the tenant id, or \<open>exit 1\<close>.\<close>

definition prerequisites :: "World \<Rightarrow> State \<Rightarrow> (Account \<times> string \<times> string) Step" where
  "prerequisites w s =
     (if az_available w then
        (case account w of
           None \<Rightarrow>
             Exit1 (emit [Error (''Not logged in to Azure. Run '' @ [CHR 0x27] @ ''azd auth login''
                                 @ [CHR 0x27] @ '' or '' @ [CHR 0x27] @ ''az login'' @ [CHR 0x27])] s)
         | Some acct \<Rightarrow>
             (case configured_envName w s of
                None \<Rightarrow>
                  Exit1 (emit [Error (''AZURE_ENV_NAME not set. Run '' @ [CHR 0x27] @ ''azd init''
                                      @ [CHR 0x27] @ '' first.'')] s)
              | Some envName \<Rightarrow>
                  if IsNullOrWhiteSpace (Some envName)
                  then Exit1 (emit [Error (''AZURE_ENV_NAME not set. Run '' @ [CHR 0x27] @ ''azd init''
                                           @ [CHR 0x27] @ '' first.'')] s)
                  else
                    (case trim_if_set (get_value (config s) ''ENTRA_TENANT_ID'') of
                       None \<Rightarrow>
                         if tenantId acct = []
                         then Exit1 (emit [Error (''Could not detect tenant ID. Run '' @ [CHR 0x27]
                                                  @ ''azd env set ENTRA_TENANT_ID <tenant-id>'' @ [CHR 0x27])] s)
                         else Next (acct, envName, tenantId acct)
                                (azd_env_set w ''ENTRA_TENANT_ID'' (tenantId acct) s)
                     | Some configured \<Rightarrow>
                         if IsNullOrWhiteSpace (Some configured)
                         then if tenantId acct = []
                              then Exit1 (emit [Error (''Could not detect tenant ID. Run '' @ [CHR 0x27]
                                                       @ ''azd env set ENTRA_TENANT_ID <tenant-id>'' @ [CHR 0x27])] s)
                              else Next (acct, envName, tenantId acct)
                                     (azd_env_set w ''ENTRA_TENANT_ID'' (tenantId acct) s)
                         else Next (acct, envName, configured) s)))
      else Exit1 (emit [Error ''Azure CLI not found. Install from https://aka.ms/azure-cli''] s))"

text \<open>Lines 124--154 and the \<open>catch\<close> of lines 512--531: the app registration. The optional
  service management reference is passed on only when it is not blank.\<close>

definition register_app :: "World \<Rightarrow> string \<Rightarrow> string \<Rightarrow> State \<Rightarrow> string Step" where
  "register_app w envName tenant s =
     (let appName = ''ai-foundry-agent-'' @ envName;
          serviceManagementRef =
            (if IsNullOrWhiteSpace (env_ENTRA_SERVICE_MANAGEMENT_REFERENCE w) then None
             else env_ENTRA_SERVICE_MANAGEMENT_REFERENCE w);
          s1 = call (RegisterApp appName) s
      in case New_EntraAppRegistration w appName tenant serviceManagementRef of
           RegistrationThrows msg \<Rightarrow>
             if ps_match msg ''App registration creation failed'' then Exit1 s1
             else Exit1 (emit [Error (''Unexpected error: '' @ msg)] s1)
         | RegistrationReturns None \<Rightarrow>
             Exit1 (emit [Error ''Failed to create/retrieve app registration''] s1)
         | RegistrationReturns (Some clientId) \<Rightarrow>
             if clientId = []
             then Exit1 (emit [Error ''Failed to create/retrieve app registration''] s1)
             else Next clientId (azd_env_set w ''ENTRA_SPA_CLIENT_ID'' clientId s1))"

section \<open>Resource, project and agent discovery (lines 156--407)\<close>

text \<open>Lines 185--187 and 349--351.\<close>

definition rbac_warning :: "Event list" where
  "rbac_warning =
     [Warning ''[!]  Warning: You may not have permissions to assign RBAC roles'',
      Detail (''   The deployment will configure the Container App'' @ [CHR 0x27]
              @ ''s managed identity to access the AI Foundry resource.''),
      Detail (''   If RBAC assignment fails, ask your subscription admin to grant '' @ [CHR 0x27]
              @ ''User Access Administrator'' @ [CHR 0x27] @ '' role.'')]"

definition validate_permissions :: "World \<Rightarrow> Account \<Rightarrow> string \<Rightarrow> State \<Rightarrow> State" where
  "validate_permissions w acct resourceGroup s =
     (if role_assignment_list w
            (''/subscriptions/'' @ subscription_id acct @ ''/resourceGroups/'' @ resourceGroup)
            (user_name acct) = []
      then emit rbac_warning s else s)"

text \<open>The test of lines 166--168 on the values read at lines 161--163.\<close>

definition preconfigured :: "ConfigStore \<Rightarrow> bool" where
  "preconfigured cfg =
     (\<not> IsNullOrWhiteSpace (get_value cfg ''AI_AGENT_ENDPOINT'') \<and>
      \<not> IsNullOrWhiteSpace (get_value cfg ''AI_FOUNDRY_RESOURCE_GROUP'') \<and>
      \<not> IsNullOrWhiteSpace (get_value cfg ''AI_FOUNDRY_RESOURCE_NAME''))"

text \<open>Lines 169--209: the pre-configured resource. Agent discovery is tried when no agent
  id is configured; an empty listing and a failing call both leave the run going.\<close>

definition use_preconfigured :: "World \<Rightarrow> Account \<Rightarrow> State \<Rightarrow> State" where
  "use_preconfigured w acct s =
     (let existingEndpoint = (case get_value (config s) ''AI_AGENT_ENDPOINT'' of None \<Rightarrow> [] | Some e \<Rightarrow> e);
          existingResourceGroup =
            (case get_value (config s) ''AI_FOUNDRY_RESOURCE_GROUP'' of None \<Rightarrow> [] | Some g \<Rightarrow> g);
          existingAgentId = get_value (config s) ''AI_AGENT_ID'';
          s1 = validate_permissions w acct existingResourceGroup s
      in if IsNullOrWhiteSpace existingAgentId
         then (case Get_AIFoundryAgents w existingEndpoint of
                 AgentsThrow \<Rightarrow> call (ListAgents existingEndpoint) s1
               | Agents [] \<Rightarrow> call (ListAgents existingEndpoint) s1
               | Agents (a # as) \<Rightarrow>
                   azd_env_set w ''AI_AGENT_ID'' (a_name a) (call (ListAgents existingEndpoint) s1))
         else s1)"

definition LF :: string where
  "LF = [CHR 0x0A]"

definition no_resources_message :: string where
  "no_resources_message =
     ''No Azure AI Foundry resources found in subscription.'' @ LF @ LF @
     ''To use this application, you need an Azure AI Foundry resource with a project and agent.'' @ LF @ LF @
     ''Option 1 - Create a new AI Foundry resource:'' @ LF @
     ''  1. Visit https://ai.azure.com'' @ LF @
     ''  2. Create a new AI Foundry resource and project'' @ LF @
     ''  3. Create an agent in the project'' @ LF @
     ''  4. Run '' @ [CHR 0x27] @ ''azd up'' @ [CHR 0x27] @ '' again'' @ LF @ LF @
     ''Option 2 - Manually configure (if resource is in different subscription):'' @ LF @
     ''  azd env set AI_FOUNDRY_RESOURCE_GROUP <resource-group>'' @ LF @
     ''  azd env set AI_FOUNDRY_RESOURCE_NAME <resource-name>'' @ LF @
     ''  azd env set AI_AGENT_ENDPOINT <endpoint>'' @ LF @
     ''  azd env set AI_AGENT_ID <agent-name>'' @ LF @ LF @
     ''For more information, visit: https://learn.microsoft.com/azure/ai-foundry''"

definition no_projects_message :: "string \<Rightarrow> string" where
  "no_projects_message resourceName =
     ''No projects found in AI Foundry resource '' @ [CHR 0x27] @ resourceName @ [CHR 0x27] @ ''.'' @ LF @ LF @
     ''To use this application, you need to create a project and agent:'' @ LF @
     ''  1. Visit https://ai.azure.com'' @ LF @
     ''  2. Open resource: '' @ resourceName @ LF @
     ''  3. Create a new project'' @ LF @
     ''  4. Create an agent in the project'' @ LF @
     ''  5. Run '' @ [CHR 0x27] @ ''azd up'' @ [CHR 0x27] @ '' again'' @ LF @ LF @
     ''For more information, visit: https://learn.microsoft.com/azure/ai-foundry/quickstarts/get-started-code''"

definition agent_required_message :: string where
  "agent_required_message =
     ''AI_AGENT_ID is required. Please configure it and run '' @ [CHR 0x27] @ ''azd up'' @ [CHR 0x27] @ '' again.''"

text \<open>Lines 316 and 325.\<close>

definition projectName_of :: "ProjectCandidate \<Rightarrow> string" where
  "projectName_of selectedProject = last_piece (Split (CHR ''/'') (p_name selectedProject))"

definition endpoint_url :: "ResourceCandidate \<Rightarrow> string \<Rightarrow> string" where
  "endpoint_url selectedResource projectName =
     ''https://'' @ r_name selectedResource @ ''.services.ai.azure.com/api/projects/'' @ projectName"

text \<open>Lines 389--403: what is printed when no agent id is in force.\<close>

definition agent_not_configured :: "string \<Rightarrow> Event list" where
  "agent_not_configured projectName =
     [Warning ''[!]  Agent not configured'',
      Detail ''You need to specify an agent name to use with this application.'',
      Detail ''To set your agent name:'',
      Detail ''  1. Visit https://ai.azure.com'',
      Detail (''  2. Open project: '' @ projectName),
      Detail (''  3. Go to '' @ [CHR 0x27] @ ''Agents'' @ [CHR 0x27] @ '' and create or select an agent''),
      Detail (''  4. Copy the Agent Name from the agent'' @ [CHR 0x27] @ ''s details''),
      Detail ''  5. Run: azd env set AI_AGENT_ID <agent-name>'',
      Detail ''  6. Run: azd up'',
      Error agent_required_message]"

text \<open>Lines 354--406: the agent id in force after resource and project are saved, or
  \<open>exit 1\<close> when there is none.\<close>

definition resolve_agent :: "World \<Rightarrow> string \<Rightarrow> string \<Rightarrow> State \<Rightarrow> unit Step" where
  "resolve_agent w projectName aiEndpoint s =
     (let aiAgentId = get_value (config s) ''AI_AGENT_ID''
      in if IsNullOrWhiteSpace aiAgentId
         then (case Get_AIFoundryAgents w aiEndpoint of
                 AgentsThrow \<Rightarrow>
                   Exit1 (emit (Warning ''[!]  Could not list agents (API error)''
                                # agent_not_configured projectName)
                            (call (ListAgents aiEndpoint) s))
               | Agents [] \<Rightarrow>
                   Exit1 (emit (agent_not_configured projectName) (call (ListAgents aiEndpoint) s))
               | Agents (a # as) \<Rightarrow>
                   if IsNullOrWhiteSpace (Some (a_name a))
                   then Exit1 (emit (agent_not_configured projectName)
                                 (azd_env_set w ''AI_AGENT_ID'' (a_name a) (call (ListAgents aiEndpoint) s)))
                   else Next () (azd_env_set w ''AI_AGENT_ID'' (a_name a) (call (ListAgents aiEndpoint) s)))
         else Next () s)"

text \<open>Lines 211--353: listing, selection, the first project, the endpoint, and the three
  \<open>azd env set\<close> calls that save them.\<close>

definition discover_resource :: "World \<Rightarrow> Account \<Rightarrow> State \<Rightarrow> unit Step" where
  "discover_resource w acct s =
     (let existingResourceGroup = get_value (config s) ''AI_FOUNDRY_RESOURCE_GROUP'';
          existingResourceName = get_value (config s) ''AI_FOUNDRY_RESOURCE_NAME'';
          s1 = call ListResources s
      in case choose_resource (ui w) (cognitiveservices_account_list w)
                existingResourceName existingResourceGroup of
           (None, ws) \<Rightarrow> Exit1 (emit (ws @ [Error no_resources_message]) s1)
         | (Some selectedResource, ws) \<Rightarrow>
             (let s2 = call (ListProjects (r_id selectedResource)) (emit ws s1)
              in case projects_of w (r_id selectedResource) of
                   [] \<Rightarrow> Exit1 (emit [Error (no_projects_message (r_name selectedResource))] s2)
                 | selectedProject # ps \<Rightarrow>
                     (let projectName = projectName_of selectedProject;
                          aiEndpoint = endpoint_url selectedResource projectName;
                          s3 = azd_env_set w ''AI_AGENT_ENDPOINT'' aiEndpoint
                                 (azd_env_set w ''AI_FOUNDRY_RESOURCE_NAME'' (r_name selectedResource)
                                    (azd_env_set w ''AI_FOUNDRY_RESOURCE_GROUP''
                                       (r_resourceGroup selectedResource) s2))
                      in resolve_agent w projectName aiEndpoint
                           (validate_permissions w acct (r_resourceGroup selectedResource) s3))))"

definition discover :: "World \<Rightarrow> Account \<Rightarrow> State \<Rightarrow> unit Step" where
  "discover w acct s =
     (if preconfigured (config s) then Next () (use_preconfigured w acct s)
      else discover_resource w acct s)"

section \<open>Configuration files (lines 409--493)\<close>

text \<open>\<open>$line -match '^([^=]+)=(.*)$'\<close>: the key is what stands before the first \<open>=\<close> and
  is not empty, the value is the rest of the line.\<close>

definition parse_env_line :: "string \<Rightarrow> (string \<times> string) option" where
  "parse_env_line line =
     (let key = takeWhile (\<lambda>c. c \<noteq> CHR ''='') line
      in if key = [] then None
         else (case dropWhile (\<lambda>c. c \<noteq> CHR ''='') line of
                 [] \<Rightarrow> None
               | eq # v \<Rightarrow> Some (key, v)))"

text \<open>\<open>$existingVars\<close> (line 423) is a PowerShell hash table, whose keys are compared without regard to
  letter case; assigning to a key that is present replaces its value and keeps the key
  as it was first written.\<close>

type_synonym Hashtable = "(string \<times> string) list"

fun hashtable_set :: "Hashtable \<Rightarrow> string \<Rightarrow> string \<Rightarrow> Hashtable" where
  "hashtable_set [] key v = [(key, v)]"
| "hashtable_set ((k, v') # h) key v =
     (if ps_eq k key then (k, v) # h else (k, v') # hashtable_set h key v)"

fun load_existing :: "Hashtable \<Rightarrow> string list \<Rightarrow> Hashtable" where
  "load_existing h [] = h"
| "load_existing h (line # ls) =
     load_existing (case parse_env_line line of None \<Rightarrow> h | Some (k, v) \<Rightarrow> hashtable_set h k v) ls"

definition set_unless_blank :: "Hashtable \<Rightarrow> string \<Rightarrow> string option \<Rightarrow> Hashtable" where
  "set_unless_blank h key v =
     (case v of None \<Rightarrow> h | Some x \<Rightarrow> if IsNullOrWhiteSpace (Some x) then h else hashtable_set h key x)"

fun insert_sorted :: "(string \<Rightarrow> string \<Rightarrow> bool) \<Rightarrow> string \<times> string \<Rightarrow> Hashtable \<Rightarrow> Hashtable" where
  "insert_sorted le e [] = [e]"
| "insert_sorted le e (x # xs) = (if le (fst e) (fst x) then e # x # xs else x # insert_sorted le e xs)"

definition Sort_Object :: "(string \<Rightarrow> string \<Rightarrow> bool) \<Rightarrow> Hashtable \<Rightarrow> Hashtable" where
  "Sort_Object le h = foldr (insert_sorted le) h []"

definition env_line :: "string \<times> string \<Rightarrow> string" where
  "env_line e = fst e @ ''='' @ snd e"

definition empty_line :: string where
  "empty_line = []"

text \<open>Lines 416--447: the variables of the azd \<open>.env\<close> file that was there, updated with
  the resolved values; a resolved value that is blank is not written.\<close>

definition merged_vars :: "string list option \<Rightarrow> ConfigStore \<Rightarrow> string \<Rightarrow> string \<Rightarrow> Hashtable" where
  "merged_vars existing cfg clientId tenant =
     (let existingVars = load_existing [] (case existing of None \<Rightarrow> [] | Some ls \<Rightarrow> ls);
          v1 = hashtable_set existingVars ''ENTRA_SPA_CLIENT_ID'' clientId;
          v2 = hashtable_set v1 ''ENTRA_TENANT_ID'' tenant;
          v3 = set_unless_blank v2 ''AI_AGENT_ENDPOINT'' (get_value cfg ''AI_AGENT_ENDPOINT'');
          v4 = set_unless_blank v3 ''AI_AGENT_ID'' (get_value cfg ''AI_AGENT_ID'');
          v5 = set_unless_blank v4 ''AI_FOUNDRY_RESOURCE_GROUP'' (get_value cfg ''AI_FOUNDRY_RESOURCE_GROUP'')
      in set_unless_blank v5 ''AI_FOUNDRY_RESOURCE_NAME'' (get_value cfg ''AI_FOUNDRY_RESOURCE_NAME''))"

text \<open>Lines 449--456: the file written, one line for each key in the order of
  \<open>Sort-Object\<close>.\<close>

definition azd_env_file :: "World \<Rightarrow> string list option \<Rightarrow> ConfigStore \<Rightarrow> string \<Rightarrow> string \<Rightarrow> string list" where
  "azd_env_file w existing cfg clientId tenant =
     [''# Auto-generated - Do not commit'', ''# Local development environment variables'', empty_line]
     @ map env_line (Sort_Object (culture_le w) (merged_vars existing cfg clientId tenant))
     @ [empty_line]"

text \<open>Lines 462--467 and 479--491: the two files written from a fixed template, whatever
  was in them before.\<close>

definition frontend_env_file :: "string \<Rightarrow> string \<Rightarrow> string list" where
  "frontend_env_file clientId tenant =
     [''# Auto-generated by azd preprovision hook'',
      ''# Used by Vite dev server for local development'',
      ''VITE_ENTRA_SPA_CLIENT_ID='' @ clientId,
      ''VITE_ENTRA_TENANT_ID='' @ tenant]"

definition interpolate :: "string option \<Rightarrow> string" where
  "interpolate v = (case v of None \<Rightarrow> [] | Some x \<Rightarrow> x)"

definition backend_env_file :: "ConfigStore \<Rightarrow> string \<Rightarrow> string \<Rightarrow> string list" where
  "backend_env_file cfg clientId tenant =
     [''# Auto-generated by azd preprovision hook'',
      ''# Used by ASP.NET Core for local development'',
      ''# .NET automatically loads .env files in Development environment'',
      ''AzureAd__Instance=https://login.microsoftonline.com/'',
      ''AzureAd__TenantId='' @ tenant,
      ''AzureAd__ClientId='' @ clientId,
      ''AzureAd__Audience=api://'' @ clientId,
      empty_line,
      ''# Azure AI Agent Service Configuration'',
      ''AI_AGENT_ENDPOINT='' @ interpolate (get_value cfg ''AI_AGENT_ENDPOINT''),
      ''AI_AGENT_ID='' @ interpolate (get_value cfg ''AI_AGENT_ID'')]"

definition envFilePath :: "string \<Rightarrow> string" where
  "envFilePath envName = ''.azure/'' @ envName @ ''/.env''"

definition frontendEnvPath :: string where
  "frontendEnvPath = ''frontend/.env.local''"

definition backendEnvPath :: string where
  "backendEnvPath = ''backend/WebApp.Api/.env''"

definition write_configuration :: "World \<Rightarrow> string \<Rightarrow> string \<Rightarrow> string \<Rightarrow> State \<Rightarrow> State" where
  "write_configuration w envName tenant clientId s =
     s\<lparr>files :=
         (files s)
           (envFilePath envName \<mapsto> azd_env_file w (files s (envFilePath envName)) (config s) clientId tenant,
            frontendEnvPath \<mapsto> frontend_env_file clientId tenant,
            backendEnvPath \<mapsto> backend_env_file (config s) clientId tenant)\<rparr>"

section \<open>The whole hook\<close>

text \<open>Lines 11--154 together: the account, the environment name, the tenant id and the
  client id of the app registration. Then the exit code of the script and the state it
  leaves: \<open>1\<close> from every \<open>exit 1\<close>, \<open>0\<close> when the script runs to its end.\<close>

definition identity :: "World \<Rightarrow> State \<Rightarrow> (Account \<times> string \<times> string \<times> string) Step" where
  "identity w s =
     (case prerequisites w s of
        Exit1 s' \<Rightarrow> Exit1 s'
      | Next (acct, envName, tenant) s1 \<Rightarrow>
          (case register_app w envName tenant s1 of
             Exit1 s' \<Rightarrow> Exit1 s'
           | Next clientId s2 \<Rightarrow> Next (acct, envName, tenant, clientId) s2))"

definition run :: "World \<Rightarrow> State \<Rightarrow> int \<times> State" where
  "run w s =
     (case identity w s of
        Exit1 s' \<Rightarrow> (1, s')
      | Next (acct, envName, tenant, clientId) s2 \<Rightarrow>
          (case discover w acct s2 of
             Exit1 s' \<Rightarrow> (1, s')
           | Next u s3 \<Rightarrow> (0, write_configuration w envName tenant clientId s3)))"

definition initial :: "ConfigStore \<Rightarrow> (string \<rightharpoonup> string list) \<Rightarrow> State" where
  "initial cfg fs = \<lparr>config = cfg, files = fs, calls = [], events = []\<rparr>"

definition preprovision :: "World \<Rightarrow> ConfigStore \<Rightarrow> (string \<rightharpoonup> string list) \<Rightarrow> int \<times> State" where
  "preprovision w cfg fs = run w (initial cfg fs)"

section \<open>The chat endpoint (server/index.js, lines 11 and 24--39)\<close>













section \<open>Observations on a run\<close>

definition state_of :: "'a Step \<Rightarrow> State" where
  "state_of st = (case st of Exit1 s \<Rightarrow> s | Next x s \<Rightarrow> s)"

definition exited :: "'a Step \<Rightarrow> bool" where
  "exited st = (case st of Exit1 s \<Rightarrow> True | Next x s \<Rightarrow> False)"

text \<open>The calls that discover a resource or its projects, and the one that discovers
  agents.\<close>

fun resource_discovery :: "Call \<Rightarrow> bool" where
  "resource_discovery ListResources = True"
| "resource_discovery (ListProjects resourceId) = True"
| "resource_discovery (ListAgents endpoint) = False"
| "resource_discovery (RegisterApp appName) = False"

fun sub_discovery :: "Call \<Rightarrow> bool" where
  "sub_discovery ListResources = False"
| "sub_discovery (ListProjects resourceId) = True"
| "sub_discovery (ListAgents endpoint) = True"
| "sub_discovery (RegisterApp appName) = False"

text \<open>What the script itself prints, as opposed to what azd prints when a write fails.\<close>

fun script_output :: "Event \<Rightarrow> bool" where
  "script_output (Warning t) = True"
| "script_output (Detail t) = True"
| "script_output (Error t) = True"
| "script_output (AzdSetFailed key) = False"

text \<open>The value a hash table holds for a key, and the keys the script writes into the azd
  \<open>.env\<close> file.\<close>

fun ht_lookup :: "Hashtable \<Rightarrow> string \<Rightarrow> string option" where
  "ht_lookup [] key = None"
| "ht_lookup ((k, v) # h) key = (if ps_eq k key then Some v else ht_lookup h key)"

definition written_keys :: "string list" where
  "written_keys =
     [''ENTRA_SPA_CLIENT_ID'', ''ENTRA_TENANT_ID'', ''AI_AGENT_ENDPOINT'', ''AI_AGENT_ID'',
      ''AI_FOUNDRY_RESOURCE_GROUP'', ''AI_FOUNDRY_RESOURCE_NAME'']"

definition other_key :: "string \<Rightarrow> string \<Rightarrow> bool" where
  "other_key key line =
     (case parse_env_line line of None \<Rightarrow> True | Some (k, v) \<Rightarrow> \<not> ps_eq k key)"

text \<open>What the identity steps resolved, when they did not exit.\<close>

definition identity_result :: "World \<Rightarrow> State \<Rightarrow> (Account \<times> string \<times> string \<times> string) option" where
  "identity_result w s = (case identity w s of Exit1 s' \<Rightarrow> None | Next x s' \<Rightarrow> Some x)"

text \<open>Two states with the same files and the same provider calls, whose azd environments
  differ at most in the values of the keys \<open>K\<close>; and two steps that end alike in such
  states.\<close>

definition agree :: "string set \<Rightarrow> State \<Rightarrow> State \<Rightarrow> bool" where
  "agree K s s' =
     (files s = files s' \<and> calls s = calls s' \<and>
      (\<forall>k. k \<in> K \<or> config s k = config s' k))"

fun step_agree :: "string set \<Rightarrow> 'a Step \<Rightarrow> 'a Step \<Rightarrow> bool" where
  "step_agree K (Exit1 s) (Exit1 s') = agree K s s'"
| "step_agree K (Next x s) (Next y s') = (x = y \<and> agree K s s')"
| "step_agree K (Exit1 s) (Next y s') = False"
| "step_agree K (Next x s) (Exit1 s') = False"

text \<open>The keys the script writes to the azd environment.\<close>

definition all_keys :: "string set" where
  "all_keys = {''ENTRA_TENANT_ID'', ''ENTRA_SPA_CLIENT_ID'', ''AI_FOUNDRY_RESOURCE_GROUP'',
               ''AI_FOUNDRY_RESOURCE_NAME'', ''AI_AGENT_ENDPOINT'', ''AI_AGENT_ID''}"

section \<open>Concrete inputs\<close>

definition candidate_X :: ResourceCandidate where
  "candidate_X = \<lparr>r_name = ''X'', r_resourceGroup = ''rg1'', r_location = ''eastus'', r_id = ''/x''\<rparr>"

definition candidate_Y :: ResourceCandidate where
  "candidate_Y = \<lparr>r_name = ''Y'', r_resourceGroup = ''rg2'', r_location = ''eastus'', r_id = ''/y''\<rparr>"

definition headless :: Host where
  "headless = \<lparr>promptForChoice = PromptMissing, readHost = ReadHostThrows\<rparr>"

definition example_account :: Account where
  "example_account = \<lparr>user_name = ''dev@contoso.com'', tenantId = ''tenant-1'', subscription_id = ''sub-1''\<rparr>"

fun ordinal_le :: "string \<Rightarrow> string \<Rightarrow> bool" where
  "ordinal_le [] t = True"
| "ordinal_le (a # as) [] = False"
| "ordinal_le (a # as) (b # bs) =
     ((of_char a :: nat) < of_char b \<or> (a = b \<and> ordinal_le as bs))"

text \<open>A subscription with two resources, one project and one agent, run on a host that
  cannot prompt.\<close>

definition example_world :: World where
  "example_world =
     \<lparr>az_available = True,
      account = Some example_account,
      env_AZURE_ENV_NAME = Some ''dev'',
      env_ENTRA_SERVICE_MANAGEMENT_REFERENCE = None,
      azd_write_ok = (\<lambda>key. True),
      New_EntraAppRegistration = (\<lambda>appName tenant reference. RegistrationReturns (Some ''abc'')),
      cognitiveservices_account_list = [candidate_X, candidate_Y],
      projects_of = (\<lambda>resourceId. [\<lparr>p_name = ''X/proj1''\<rparr>]),
      Get_AIFoundryAgents = (\<lambda>endpoint. Agents [\<lparr>a_name = ''agent-1''\<rparr>]),
      role_assignment_list = (\<lambda>scope assignee. [''Owner'']),
      ui = headless,
      culture_le = ordinal_le\<rparr>"

text \<open>An azd environment in which resource group, resource name and endpoint are set and
  the agent id is not; no file on disk; the same subscription with no agent in the
  project.\<close>

definition preconfigured_store :: ConfigStore where
  "preconfigured_store =
     [''AI_FOUNDRY_RESOURCE_GROUP'' \<mapsto> ''rg1'',
      ''AI_FOUNDRY_RESOURCE_NAME'' \<mapsto> ''X'',
      ''AI_AGENT_ENDPOINT'' \<mapsto> ''https://X.services.ai.azure.com/api/projects/proj1'']"

definition no_store :: ConfigStore where
  "no_store = Map.empty"

definition no_files :: "string \<rightharpoonup> string list" where
  "no_files = Map.empty"

definition world_without_agents :: World where
  "world_without_agents = example_world\<lparr>Get_AIFoundryAgents := (\<lambda>endpoint. Agents [])\<rparr>"

definition configured_endpoint :: string where
  "configured_endpoint = ''https://X.services.ai.azure.com/api/projects/proj1''"

definition world_without_resources :: World where
  "world_without_resources = example_world\<lparr>cognitiveservices_account_list := []\<rparr>"

text \<open>Files that were edited by hand before the run, and the same files when the key
  \<open>foo\<close> is given again in lower case.\<close>

definition files_with_FOO :: "string \<rightharpoonup> string list" where
  "files_with_FOO =
     [''.azure/dev/.env'' \<mapsto> [''FOO=bar''],
      ''frontend/.env.local'' \<mapsto> [''FOO=bar''],
      ''backend/WebApp.Api/.env'' \<mapsto> [''FOO=bar'']]"

text \<open>The same subscription when every \<open>azd env set\<close> fails.\<close>

definition world_write_fails :: World where
  "world_write_fails = example_world\<lparr>azd_write_ok := (\<lambda>key. False)\<rparr>"

text \<open>The pre-configured environment with the agent \<open>error-bot\<close> pinned by hand.\<close>

definition error_bot_store :: ConfigStore where
  "error_bot_store = preconfigured_store(''AI_AGENT_ID'' \<mapsto> ''error-bot'')"

text \<open>The pre-configured environment when the resource is named \<open>terror-lab\<close>.\<close>

definition terror_lab_store :: ConfigStore where
  "terror_lab_store = preconfigured_store(''AI_FOUNDRY_RESOURCE_NAME'' \<mapsto> ''terror-lab'')"

text \<open>A host whose prompt throws and whose \<open>Read-Host\<close> returns a line that is no number,
  and the example subscription on that host.\<close>

definition garbled :: Host where
  "garbled = \<lparr>promptForChoice = PromptThrows, readHost = ReadHostReturns ''abc''\<rparr>"

definition garbled_world :: World where
  "garbled_world = example_world\<lparr>ui := garbled\<rparr>"

section \<open>Facts about the string primitives\<close>

lemmas ps_string_defs =
  trim_if_set_def Trim_def IsWhiteSpace_def IsNullOrWhiteSpace_def ps_eq_def ps_match_def to_lower_def

lemma dropWhile_keeps: "\<not> list_all P xs \<Longrightarrow> \<not> list_all P (dropWhile P xs)"
  by (induction xs) auto

lemma dropWhile_all: "list_all P xs \<Longrightarrow> dropWhile P xs = []"
  by (induction xs) auto

lemma Trim_blank: "list_all IsWhiteSpace (Trim v) = list_all IsWhiteSpace v"
proof (cases "list_all IsWhiteSpace v")
  case True
  have "Trim v = []" unfolding Trim_def dropWhile_all [OF True] by simp
  then show ?thesis using True by simp
next
  case False
  have "\<not> list_all IsWhiteSpace (rev (dropWhile IsWhiteSpace v))"
    using dropWhile_keeps [OF False] by (simp add: list_all_iff)
  from dropWhile_keeps [OF this]
  have "\<not> list_all IsWhiteSpace (Trim v)"
    unfolding Trim_def by (simp add: list_all_iff)
  then show ?thesis using False by simp
qed

section \<open>The Selector\<close>

lemma matched_by_name_Some:
  "matched_by_name cs (Some hint) =
     (if IsNullOrWhiteSpace (Some hint) then [] else filter (\<lambda>r. ps_eq (r_name r) (Trim hint)) cs)"
  by (auto simp: matched_by_name_def trim_if_set_def IsNullOrWhiteSpace_def Trim_blank)

lemma matched_by_group_Some:
  "matched_by_group cs (Some hint) =
     (if IsNullOrWhiteSpace (Some hint) then []
      else filter (\<lambda>r. ps_eq (r_resourceGroup r) (Trim hint)) cs)"
  by (auto simp: matched_by_group_def trim_if_set_def IsNullOrWhiteSpace_def Trim_blank)

lemma matched_by_None: "matched_by_name cs None = []" "matched_by_group cs None = []"
  by (simp_all add: matched_by_name_def matched_by_group_def trim_if_set_def)

lemma two_or_more: "2 \<le> length cs \<Longrightarrow> \<exists>r r' rs. cs = r # r' # rs"
  by (cases cs; cases "tl cs") auto

text \<open>
  Claim C2. Among two or more candidates, a name hint that is not blank and that exactly
  one candidate's name matches selects that candidate, wherever it stands in the
  listing. When the name hint matches a candidate the group hint has no influence on the
  result; when it matches none, a candidate is selected exactly when the group hint is
  not blank and that candidate is the only one in the group.
\<close>

theorem Selector_hint_precedence:
  assumes "2 \<le> length cs"
  shows "(\<not> IsNullOrWhiteSpace (Some hint) \<and> filter (\<lambda>r. ps_eq (r_name r) (Trim hint)) cs = [c]
            \<longrightarrow> fst (Selector cs (Some hint) g) = Selected c) \<and>
         (matched_by_name cs n \<noteq> [] \<longrightarrow> Selector cs n g = Selector cs n g') \<and>
         (matched_by_name cs n = [] \<longrightarrow>
            (fst (Selector cs n g) = Selected c) =
            (\<exists>gh. g = Some gh \<and> \<not> IsNullOrWhiteSpace (Some gh) \<and>
                  filter (\<lambda>r. ps_eq (r_resourceGroup r) (Trim gh)) cs = [c]))"
proof -
  from two_or_more [OF assms] obtain r r' rs where cs: "cs = r # r' # rs"
    by blast
  have byname: "\<not> IsNullOrWhiteSpace (Some hint) \<and> filter (\<lambda>r. ps_eq (r_name r) (Trim hint)) cs = [c]
            \<longrightarrow> fst (Selector cs (Some hint) g) = Selected c"
    unfolding cs by (simp add: matched_by_name_Some)
  have indep: "matched_by_name cs n \<noteq> [] \<longrightarrow> Selector cs n g = Selector cs n g'"
    unfolding cs by (simp split: list.splits)
  have grp: "(matched_by_group cs g = [c]) =
        (\<exists>gh. g = Some gh \<and> \<not> IsNullOrWhiteSpace (Some gh) \<and>
              filter (\<lambda>r. ps_eq (r_resourceGroup r) (Trim gh)) cs = [c])"
    by (cases g) (auto simp: matched_by_None matched_by_group_Some)
  have bygroup: "matched_by_name cs n = [] \<longrightarrow>
            (fst (Selector cs n g) = Selected c) = (matched_by_group cs g = [c])"
    unfolding cs by (auto split: list.splits)
  show ?thesis using byname indep bygroup grp by simp
qed

theorem Selector_hint_precedence_witness:
  "fst (Selector [candidate_X, candidate_Y] (Some ''Y'') None) = Selected candidate_Y \<and>
   Selector [candidate_X, candidate_Y] (Some ''Y'') (Some ''rg1'')
     = Selector [candidate_X, candidate_Y] (Some ''Y'') None \<and>
   fst (Selector [candidate_X, candidate_Y] None (Some ''rg1'')) = Selected candidate_X"
  using Selector_hint_precedence [where cs = "[candidate_X, candidate_Y]" and hint = "''Y''"
          and c = candidate_Y and g = None and n = "Some ''Y''" and g' = "Some ''rg1''"]
        Selector_hint_precedence [where cs = "[candidate_X, candidate_Y]" and hint = "''Y''"
          and c = candidate_X and g = "Some ''rg1''" and n = None and g' = None]
  by (simp add: matched_by_name_def matched_by_group_def ps_string_defs candidate_X_def candidate_Y_def)

text \<open>
  Claim C3. A listing of exactly one candidate yields \<open>Selected\<close> of that candidate, with
  nothing printed, whatever the name and group hints are; the result is neither
  \<open>NotFound\<close> nor \<open>AmbiguousNeedsInput\<close>, and the orchestrator goes on with that candidate
  without consulting the host.
\<close>

theorem Selector_single_candidate:
  "Selector [c] existingName existingGroup = (Selected c, []) \<and>
   fst (Selector [c] existingName existingGroup) \<noteq> NotFound \<and>
   fst (Selector [c] existingName existingGroup) \<noteq> AmbiguousNeedsInput cs \<and>
   choose_resource h [c] existingName existingGroup = (Some c, [])"
  by simp

section \<open>What each step changes\<close>

lemma emit_simps [simp]:
  "config (emit es s) = config s" "files (emit es s) = files s"
  "calls (emit es s) = calls s" "events (emit es s) = events s @ es"
  by (simp_all add: emit_def)

lemma call_simps [simp]:
  "config (call c s) = config s" "files (call c s) = files s"
  "calls (call c s) = calls s @ [c]" "events (call c s) = events s"
  by (simp_all add: call_def)

lemma azd_env_set_simps [simp]:
  "files (azd_env_set w k v s) = files s" "calls (azd_env_set w k v s) = calls s"
  "events (azd_env_set w k v s) = (if azd_write_ok w k then events s else events s @ [AzdSetFailed k])"
  "filter script_output (events (azd_env_set w k v s)) = filter script_output (events s)"
  "config (azd_env_set w k v s) = (if azd_write_ok w k then (config s)(k \<mapsto> v) else config s)"
  by (simp_all add: azd_env_set_def)

lemma validate_permissions_simps [simp]:
  "config (validate_permissions w acct rg s) = config s"
  "files (validate_permissions w acct rg s) = files s"
  "calls (validate_permissions w acct rg s) = calls s"
  by (simp_all add: validate_permissions_def)

lemma initial_simps [simp]:
  "config (initial cfg fs) = cfg" "files (initial cfg fs) = fs"
  "calls (initial cfg fs) = []" "events (initial cfg fs) = []"
  by (simp_all add: initial_def)

lemma get_value_cong: "cfg' k = cfg k \<Longrightarrow> get_value cfg' k = get_value cfg k"
  by (simp add: get_value_def azd_env_get_value_def)

lemma get_value_upd: "k' \<noteq> k \<Longrightarrow> get_value (cfg(k \<mapsto> v)) k' = get_value cfg k'"
  by (rule get_value_cong) simp

lemma preconfigured_cong:
  assumes "cfg' ''AI_AGENT_ENDPOINT'' = cfg ''AI_AGENT_ENDPOINT''"
      and "cfg' ''AI_FOUNDRY_RESOURCE_GROUP'' = cfg ''AI_FOUNDRY_RESOURCE_GROUP''"
      and "cfg' ''AI_FOUNDRY_RESOURCE_NAME'' = cfg ''AI_FOUNDRY_RESOURCE_NAME''"
  shows "preconfigured cfg' = preconfigured cfg"
  using assms by (simp add: preconfigured_def get_value_def azd_env_get_value_def)

lemma prerequisites_Next:
  assumes "prerequisites w s = Next (acct, envName, tenant) s1"
  shows "files s1 = files s \<and> calls s1 = calls s \<and>
         filter script_output (events s1) = filter script_output (events s) \<and>
         (config s1 = config s \<or> config s1 = (config s)(''ENTRA_TENANT_ID'' \<mapsto> tenant))"
  using assms
  by (auto simp: prerequisites_def split: if_splits option.splits)

lemma prerequisites_Exit1:
  assumes "prerequisites w s = Exit1 s1"
  shows "files s1 = files s \<and> calls s1 = calls s \<and> config s1 = config s"
  using assms
  by (auto simp: prerequisites_def split: if_splits option.splits)

lemma register_app_Next:
  assumes "register_app w envName tenant s = Next clientId s1"
  shows "files s1 = files s \<and> calls s1 = calls s @ [RegisterApp (''ai-foundry-agent-'' @ envName)] \<and>
         filter script_output (events s1) = filter script_output (events s) \<and>
         (config s1 = config s \<or> config s1 = (config s)(''ENTRA_SPA_CLIENT_ID'' \<mapsto> clientId))"
  using assms
  by (auto simp: register_app_def Let_def split: if_splits option.splits RegistrationResult.splits)

lemma register_app_Exit1:
  assumes "register_app w envName tenant s = Exit1 s1"
  shows "files s1 = files s \<and> calls s1 = calls s @ [RegisterApp (''ai-foundry-agent-'' @ envName)] \<and>
         config s1 = config s"
  using assms
  by (auto simp: register_app_def Let_def split: if_splits option.splits RegistrationResult.splits)

lemma identity_Next:
  assumes "identity w s = Next (acct, envName, tenant, clientId) sb"
  shows "files sb = files s" "calls sb = calls s @ [RegisterApp (''ai-foundry-agent-'' @ envName)]"
        "filter script_output (events sb) = filter script_output (events s)"
        "k \<noteq> ''ENTRA_TENANT_ID'' \<Longrightarrow> k \<noteq> ''ENTRA_SPA_CLIENT_ID'' \<Longrightarrow> config sb k = config s k"
proof -
  from assms obtain sa where p: "prerequisites w s = Next (acct, envName, tenant) sa"
    and r: "register_app w envName tenant sa = Next clientId sb"
    by (auto simp: identity_def split: Step.splits)
  note P = prerequisites_Next [OF p] and R = register_app_Next [OF r]
  show "files sb = files s" "calls sb = calls s @ [RegisterApp (''ai-foundry-agent-'' @ envName)]"
        "filter script_output (events sb) = filter script_output (events s)"
    using P R by simp_all
  show "k \<noteq> ''ENTRA_TENANT_ID'' \<Longrightarrow> k \<noteq> ''ENTRA_SPA_CLIENT_ID'' \<Longrightarrow> config sb k = config s k"
    using P R by auto
qed

lemma identity_Exit1:
  assumes "identity w s = Exit1 s'"
  shows "files s' = files s" "filter sub_discovery (calls s') = filter sub_discovery (calls s)"
        "filter resource_discovery (calls s') = filter resource_discovery (calls s)"
        "k \<noteq> ''ENTRA_TENANT_ID'' \<Longrightarrow> config s' k = config s k"
proof -
  from assms consider (pre) "prerequisites w s = Exit1 s'"
    | (reg) a e t sa where "prerequisites w s = Next (a, e, t) sa" "register_app w e t sa = Exit1 s'"
    by (auto simp: identity_def split: Step.splits)
  then have "files s' = files s \<and> (k \<noteq> ''ENTRA_TENANT_ID'' \<longrightarrow> config s' k = config s k) \<and>
      filter sub_discovery (calls s') = filter sub_discovery (calls s) \<and>
      filter resource_discovery (calls s') = filter resource_discovery (calls s)"
  proof cases
    case pre
    then show ?thesis using prerequisites_Exit1 [OF pre] by simp
  next
    case reg
    then show ?thesis
      using prerequisites_Next [OF reg(1)] register_app_Exit1 [OF reg(2)] by auto
  qed
  then show "files s' = files s"
    "filter sub_discovery (calls s') = filter sub_discovery (calls s)"
    "filter resource_discovery (calls s') = filter resource_discovery (calls s)"
    "k \<noteq> ''ENTRA_TENANT_ID'' \<Longrightarrow> config s' k = config s k"
    by simp_all
qed

lemma identity_get_value:
  assumes "identity w s = Next (acct, envName, tenant, clientId) sb"
      and "k \<noteq> ''ENTRA_TENANT_ID''" and "k \<noteq> ''ENTRA_SPA_CLIENT_ID''"
  shows "get_value (config sb) k = get_value (config s) k"
  by (rule get_value_cong) (rule identity_Next(4) [OF assms])

lemma identity_preconfigured:
  assumes "identity w s = Next (acct, envName, tenant, clientId) sb"
  shows "preconfigured (config sb) = preconfigured (config s)"
  by (rule preconfigured_cong) (simp_all add: identity_Next(4) [OF assms])

lemma resolve_agent_state:
  "files (state_of (resolve_agent w pn ep s)) = files s \<and>
   (\<forall>k. k \<noteq> ''AI_AGENT_ID'' \<longrightarrow> config (state_of (resolve_agent w pn ep s)) k = config s k) \<and>
   (calls (state_of (resolve_agent w pn ep s)) = calls s \<or>
    calls (state_of (resolve_agent w pn ep s)) = calls s @ [ListAgents ep]) \<and>
   (\<exists>es. events (state_of (resolve_agent w pn ep s)) = events s @ es)"
  by (auto simp: resolve_agent_def state_of_def Let_def split: AgentsResult.splits list.splits)

lemma run_identity_exit:
  assumes "identity w s = Exit1 s'"
  shows "run w s = (1, s')"
  using assms by (simp add: run_def)

lemma run_identity_next:
  assumes "identity w s = Next (acct, envName, tenant, clientId) sb"
  shows "run w s = (case discover w acct sb of
                      Exit1 s' \<Rightarrow> (1, s')
                    | Next u sc \<Rightarrow> (0, write_configuration w envName tenant clientId sc))"
  using assms by (simp add: run_def)

lemma identity_cases:
  obtains (stopped) s' where "identity w s = Exit1 s'"
        | (resolved) acct envName tenant clientId sb
            where "identity w s = Next (acct, envName, tenant, clientId) sb"
proof (cases "identity w s")
  case (Exit1 s')
  then show ?thesis by (rule stopped)
next
  case (Next x sb)
  obtain a e t c where "x = (a, e, t, c)" by (cases x)
  with Next show ?thesis by (simp add: resolved)
qed

lemma not_exited:
  assumes "\<not> exited st"
  obtains x s where "st = Next x s" and "state_of st = s"
  using assms by (cases st) (simp_all add: exited_def state_of_def)

lemma identity_not_exited:
  assumes "\<not> exited (identity w s)"
  obtains acct envName tenant clientId
  where "identity w s = Next (acct, envName, tenant, clientId) (state_of (identity w s))"
proof -
  from assms obtain x sb where st: "identity w s = Next x sb" "state_of (identity w s) = sb"
    by (rule not_exited)
  obtain a e t c where "x = (a, e, t, c)" by (cases x)
  with st that show ?thesis by simp
qed

section \<open>The derived endpoint\<close>

lemma Split_nonempty: "Split d s \<noteq> []"
  by (induction s) (auto split: list.splits)

lemma last_piece_last: "ps \<noteq> [] \<Longrightarrow> last_piece ps = last ps"
  by (induction ps rule: last_piece.induct) auto

lemma Split_no_delimiter: "d \<notin> set s \<Longrightarrow> Split d s = [s]"
  by (induction s) auto

lemma Split_append: "Split d (xs @ d # ys) = Split d xs @ Split d ys"
proof (induction xs)
  case Nil
  show ?case by simp
next
  case (Cons c xs)
  obtain p ps where "Split d xs = p # ps"
    using Split_nonempty [of d xs] by (cases "Split d xs") auto
  with Cons show ?case by simp
qed

lemma last_segment:
  assumes "d \<notin> set seg"
  shows "last_piece (Split d seg) = seg" and "last_piece (Split d (pre @ d # seg)) = seg"
  using assms
  by (simp_all add: last_piece_last Split_nonempty Split_append Split_no_delimiter)

lemma discover_resource_selected:
  assumes "choose_resource (ui w) (cognitiveservices_account_list w)
             (get_value (config s) ''AI_FOUNDRY_RESOURCE_NAME'')
             (get_value (config s) ''AI_FOUNDRY_RESOURCE_GROUP'') = (Some r, ws)"
      and "projects_of w (r_id r) = p # ps"
  shows "discover_resource w acct s =
           resolve_agent w (projectName_of p) (endpoint_url r (projectName_of p))
             (validate_permissions w acct (r_resourceGroup r)
                (azd_env_set w ''AI_AGENT_ENDPOINT'' (endpoint_url r (projectName_of p))
                   (azd_env_set w ''AI_FOUNDRY_RESOURCE_NAME'' (r_name r)
                      (azd_env_set w ''AI_FOUNDRY_RESOURCE_GROUP'' (r_resourceGroup r)
                         (call (ListProjects (r_id r)) (emit ws (call ListResources s)))))))"
  using assms by (simp add: discover_resource_def Let_def)

text \<open>
  Claim C9. When discovery selects a resource and its project listing is not empty, the
  value saved as \<open>AI_AGENT_ENDPOINT\<close> (the write succeeding) is
  \<open>https://{resourceName}.services.ai.azure.com/api/projects/{projectName}\<close>, where the
  project name is the last piece of the first listed project's name split at \<open>/\<close>:
  the name itself when it holds no \<open>/\<close>, and what follows its last \<open>/\<close> otherwise.
\<close>

theorem endpoint_saved:
  assumes "\<not> preconfigured (config s)"
      and "choose_resource (ui w) (cognitiveservices_account_list w)
             (get_value (config s) ''AI_FOUNDRY_RESOURCE_NAME'')
             (get_value (config s) ''AI_FOUNDRY_RESOURCE_GROUP'') = (Some r, ws)"
      and "projects_of w (r_id r) = p # ps"
      and "azd_write_ok w ''AI_AGENT_ENDPOINT''"
  shows "config (state_of (discover w acct s)) ''AI_AGENT_ENDPOINT''
           = Some (''https://'' @ r_name r @ ''.services.ai.azure.com/api/projects/''
                   @ last (Split (CHR ''/'') (p_name p))) \<and>
         (CHR ''/'' \<notin> set seg \<and> (p_name p = seg \<or> p_name p = pre @ ''/'' @ seg)
            \<longrightarrow> last (Split (CHR ''/'') (p_name p)) = seg)"
proof -
  have "config (state_of (discover w acct s)) ''AI_AGENT_ENDPOINT''
          = Some (endpoint_url r (projectName_of p))"
    using assms(1,4) resolve_agent_state
    by (simp add: discover_def discover_resource_selected [OF assms(2,3)])
  moreover have "projectName_of p = last (Split (CHR ''/'') (p_name p))"
    by (simp add: projectName_of_def last_piece_last Split_nonempty)
  moreover have "CHR ''/'' \<notin> set seg \<and> (p_name p = seg \<or> p_name p = pre @ ''/'' @ seg)
            \<longrightarrow> last (Split (CHR ''/'') (p_name p)) = seg"
    using last_segment(1) [of "CHR ''/''" seg] last_segment(2) [of "CHR ''/''" seg pre]
    by (auto simp: last_piece_last Split_nonempty)
  ultimately show ?thesis by (simp add: endpoint_url_def)
qed

theorem endpoint_saved_witness:
  "config (state_of (discover example_world example_account (initial no_store no_files)))
     ''AI_AGENT_ENDPOINT''
     = Some (''https://'' @ r_name candidate_X @ ''.services.ai.azure.com/api/projects/''
             @ last (Split (CHR ''/'') (p_name \<lparr>p_name = ''X/proj1''\<rparr>))) \<and>
   last (Split (CHR ''/'') (p_name \<lparr>p_name = ''X/proj1''\<rparr>)) = ''proj1''"
proof -
  have none: "\<not> preconfigured (config (initial no_store no_files))"
    by code_simp
  have chosen: "choose_resource (ui example_world) (cognitiveservices_account_list example_world)
             (get_value (config (initial no_store no_files)) ''AI_FOUNDRY_RESOURCE_NAME'')
             (get_value (config (initial no_store no_files)) ''AI_FOUNDRY_RESOURCE_GROUP'')
           = (Some candidate_X, unable_to_prompt)"
    by code_simp
  have listed: "projects_of example_world (r_id candidate_X) = \<lparr>p_name = ''X/proj1''\<rparr> # []"
    by code_simp
  have ok: "azd_write_ok example_world ''AI_AGENT_ENDPOINT''"
    by code_simp
  have seg: "CHR ''/'' \<notin> set ''proj1'' \<and>
      (p_name \<lparr>p_name = ''X/proj1''\<rparr> = ''proj1'' \<or> p_name \<lparr>p_name = ''X/proj1''\<rparr> = ''X'' @ ''/'' @ ''proj1'')"
    by simp
  from endpoint_saved [OF none chosen listed ok, where seg = "''proj1''" and pre = "''X''"
         and acct = example_account] seg
  show ?thesis
    by blast
qed

section \<open>Interactive selection and the fallback\<close>

lemma Select_Index_ReadHost_range:
  "Select_Index_ReadHost n h = - 1 \<or> (0 \<le> Select_Index_ReadHost n h \<and> Select_Index_ReadHost n h < int n)"
  by (auto simp: Select_Index_ReadHost_def split: ReadHost.splits option.splits)

text \<open>An index that Select-Index returns as non-negative lies within the items, so the
  read at line 285 is always in range.\<close>

lemma Select_Index_range:
  "Select_Index Items h = - 1 \<or> (0 \<le> Select_Index Items h \<and> Select_Index Items h < int (length Items))"
  using Select_Index_ReadHost_range [of "length Items" h]
  by (auto simp: Select_Index_def split: PromptForChoice.splits)

text \<open>When Select-Index returns a negative index: the prompt is missing, throws or
  returns an index outside the items, and \<open>Read-Host\<close> throws or returns a line that is
  no number between 1 and the number of items.\<close>

lemma Select_Index_negative:
  "(Select_Index Items h < 0) =
     ((case promptForChoice h of
         PromptReturns k \<Rightarrow> k < 0 \<or> int (length Items) \<le> k
       | PromptThrows \<Rightarrow> True
       | PromptMissing \<Rightarrow> True) \<and>
      (case readHost h of
         ReadHostThrows \<Rightarrow> True
       | ReadHostReturns line \<Rightarrow>
           (case TryParse line of
              None \<Rightarrow> True
            | Some n \<Rightarrow> n < 1 \<or> int (length Items) < n)))"
  by (auto simp: Select_Index_def Select_Index_ReadHost_def
        split: PromptForChoice.splits ReadHost.splits option.splits)

lemma fallback_choice:
  assumes "2 \<le> length cs"
      and "matched_by_name cs existingName = []"
      and "length (matched_by_group cs existingGroup) \<noteq> 1"
      and "Select_Index cs h < 0"
  shows "choose_resource h cs existingName existingGroup =
           (Some (hd cs),
            name_warnings cs existingName @ group_warnings cs existingGroup @ unable_to_prompt)"
proof -
  from two_or_more [OF assms(1)] obtain r r' rs where cs: "cs = r # r' # rs"
    by blast
  have sel: "Selector cs existingName existingGroup =
               (AmbiguousNeedsInput cs, name_warnings cs existingName @ group_warnings cs existingGroup)"
    using assms(2,3) unfolding cs by (auto split: list.splits)
  show ?thesis
    using sel assms(4) unfolding cs by simp
qed

lemma discover_resource_goes_on:
  assumes "choose_resource (ui w) (cognitiveservices_account_list w)
             (get_value (config s) ''AI_FOUNDRY_RESOURCE_NAME'')
             (get_value (config s) ''AI_FOUNDRY_RESOURCE_GROUP'') = (Some r, ws)"
  shows "ListProjects (r_id r) \<in> set (calls (state_of (discover_resource w acct s))) \<and>
         set ws \<subseteq> set (events (state_of (discover_resource w acct s)))"
proof (cases "projects_of w (r_id r)")
  case Nil
  then show ?thesis
    using assms by (auto simp: discover_resource_def state_of_def)
next
  case (Cons p ps)
  let ?t = "validate_permissions w acct (r_resourceGroup r)
                (azd_env_set w ''AI_AGENT_ENDPOINT'' (endpoint_url r (projectName_of p))
                   (azd_env_set w ''AI_FOUNDRY_RESOURCE_NAME'' (r_name r)
                      (azd_env_set w ''AI_FOUNDRY_RESOURCE_GROUP'' (r_resourceGroup r)
                         (call (ListProjects (r_id r)) (emit ws (call ListResources s))))))"
  have c: "ListProjects (r_id r) \<in> set (calls ?t)"
    by simp
  have e: "set ws \<subseteq> set (events ?t)"
    by (auto simp: validate_permissions_def)
  from resolve_agent_state [of w "projectName_of p" "endpoint_url r (projectName_of p)" ?t]
  have "ListProjects (r_id r)
          \<in> set (calls (state_of (resolve_agent w (projectName_of p) (endpoint_url r (projectName_of p)) ?t)))"
    and "set ws
          \<subseteq> set (events (state_of (resolve_agent w (projectName_of p) (endpoint_url r (projectName_of p)) ?t)))"
    using c e by auto
  then show ?thesis
    by (simp add: discover_resource_selected [OF assms Cons])
qed

lemma resolve_agent_goes_on:
  assumes "\<not> IsNullOrWhiteSpace (get_value (config s) ''AI_AGENT_ID'') \<or>
           (Get_AIFoundryAgents w ep = Agents (a # as) \<and> \<not> IsNullOrWhiteSpace (Some (a_name a)))"
  shows "\<not> exited (resolve_agent w pn ep s)"
  using assms by (auto simp: resolve_agent_def exited_def)

lemma discover_resource_first:
  assumes "choose_resource (ui w) (cognitiveservices_account_list w)
             (get_value (config s) ''AI_FOUNDRY_RESOURCE_NAME'')
             (get_value (config s) ''AI_FOUNDRY_RESOURCE_GROUP'') = (Some r, ws)"
      and "projects_of w (r_id r) = p # ps"
  shows "azd_write_ok w ''AI_FOUNDRY_RESOURCE_NAME'' \<Longrightarrow>
           config (state_of (discover_resource w acct s)) ''AI_FOUNDRY_RESOURCE_NAME'' = Some (r_name r)"
    and "\<not> IsNullOrWhiteSpace (get_value (config s) ''AI_AGENT_ID'') \<or>
           (Get_AIFoundryAgents w (endpoint_url r (projectName_of p)) = Agents (a # as) \<and>
            \<not> IsNullOrWhiteSpace (Some (a_name a)))
         \<Longrightarrow> \<not> exited (discover_resource w acct s)"
proof -
  let ?t = "validate_permissions w acct (r_resourceGroup r)
                (azd_env_set w ''AI_AGENT_ENDPOINT'' (endpoint_url r (projectName_of p))
                   (azd_env_set w ''AI_FOUNDRY_RESOURCE_NAME'' (r_name r)
                      (azd_env_set w ''AI_FOUNDRY_RESOURCE_GROUP'' (r_resourceGroup r)
                         (call (ListProjects (r_id r)) (emit ws (call ListResources s))))))"
  note sel = discover_resource_selected [OF assms]
  show "config (state_of (discover_resource w acct s)) ''AI_FOUNDRY_RESOURCE_NAME'' = Some (r_name r)"
    if "azd_write_ok w ''AI_FOUNDRY_RESOURCE_NAME''"
    using that resolve_agent_state [of w "projectName_of p" "endpoint_url r (projectName_of p)" ?t]
    by (simp add: sel)
  show "\<not> exited (discover_resource w acct s)"
    if h: "\<not> IsNullOrWhiteSpace (get_value (config s) ''AI_AGENT_ID'') \<or>
           (Get_AIFoundryAgents w (endpoint_url r (projectName_of p)) = Agents (a # as) \<and>
            \<not> IsNullOrWhiteSpace (Some (a_name a)))"
  proof -
    have "config ?t ''AI_AGENT_ID'' = config s ''AI_AGENT_ID''"
      by simp
    then have g: "get_value (config ?t) ''AI_AGENT_ID'' = get_value (config s) ''AI_AGENT_ID''"
      by (rule get_value_cong)
    have "\<not> IsNullOrWhiteSpace (get_value (config ?t) ''AI_AGENT_ID'') \<or>
           (Get_AIFoundryAgents w (endpoint_url r (projectName_of p)) = Agents (a # as) \<and>
            \<not> IsNullOrWhiteSpace (Some (a_name a)))"
      using h by (simp only: g)
    from resolve_agent_goes_on [OF this] show ?thesis
      unfolding sel .
  qed
qed

lemma run_after_discover:
  assumes "identity w s = Next (acct, envName, tenant, clientId) sb"
  shows "fst (run w s) = (if exited (discover w acct sb) then 1 else 0)"
    and "calls (snd (run w s)) = calls (state_of (discover w acct sb))"
    and "events (snd (run w s)) = events (state_of (discover w acct sb))"
    and "config (snd (run w s)) = config (state_of (discover w acct sb))"
  by (cases "discover w acct sb";
      simp add: run_identity_next [OF assms] exited_def state_of_def write_configuration_def)+

text \<open>
  Claim C4. Let the identity steps have passed, no resource be pre-configured, the listing
  hold two or more candidates, neither the name hint nor the group hint select one, and
  Select-Index return a negative index, which it does exactly when the host offers no
  usable channel: the prompt is missing, throws or gives no valid index, and \<open>Read-Host\<close>
  throws or gives no valid number. Then the script prints the warning that it could not
  prompt and is falling back to the first resource, asks for the projects of the first
  candidate of the listing, saves that candidate's name (the write succeeding), and does
  not fail on the selection: when the first candidate has a project and an agent id is
  configured or an agent with a name is found, the exit code is 0.
\<close>

theorem fallback_to_first_candidate:
  assumes "\<not> exited (identity w (initial cfg fs))"
      and "\<not> preconfigured cfg"
      and "2 \<le> length (cognitiveservices_account_list w)"
      and "matched_by_name (cognitiveservices_account_list w)
             (get_value cfg ''AI_FOUNDRY_RESOURCE_NAME'') = []"
      and "length (matched_by_group (cognitiveservices_account_list w)
             (get_value cfg ''AI_FOUNDRY_RESOURCE_GROUP'')) \<noteq> 1"
      and "Select_Index (cognitiveservices_account_list w) (ui w) < 0"
  shows "Warning ''[!]  Unable to prompt for selection (non-interactive host).''
           \<in> set (events (snd (preprovision w cfg fs))) \<and>
         Detail ''   Falling back to the first resource. To override, set:''
           \<in> set (events (snd (preprovision w cfg fs))) \<and>
         ListProjects (r_id (hd (cognitiveservices_account_list w)))
           \<in> set (calls (snd (preprovision w cfg fs))) \<and>
         (projects_of w (r_id (hd (cognitiveservices_account_list w))) = p # ps \<and>
          azd_write_ok w ''AI_FOUNDRY_RESOURCE_NAME''
            \<longrightarrow> config (snd (preprovision w cfg fs)) ''AI_FOUNDRY_RESOURCE_NAME''
                  = Some (r_name (hd (cognitiveservices_account_list w)))) \<and>
         (projects_of w (r_id (hd (cognitiveservices_account_list w))) = p # ps \<and>
          (\<not> IsNullOrWhiteSpace (get_value cfg ''AI_AGENT_ID'') \<or>
           (Get_AIFoundryAgents w
              (endpoint_url (hd (cognitiveservices_account_list w)) (projectName_of p)) = Agents (a # as) \<and>
            \<not> IsNullOrWhiteSpace (Some (a_name a))))
            \<longrightarrow> fst (preprovision w cfg fs) = 0) \<and>
         (Select_Index (cognitiveservices_account_list w) (ui w) < 0) =
           ((case promptForChoice (ui w) of
               PromptReturns k \<Rightarrow> k < 0 \<or> int (length (cognitiveservices_account_list w)) \<le> k
             | PromptThrows \<Rightarrow> True
             | PromptMissing \<Rightarrow> True) \<and>
            (case readHost (ui w) of
               ReadHostThrows \<Rightarrow> True
             | ReadHostReturns line \<Rightarrow>
                 (case TryParse line of
                    None \<Rightarrow> True
                  | Some n \<Rightarrow> n < 1 \<or> int (length (cognitiveservices_account_list w)) < n)))"
proof -
  let ?cs = "cognitiveservices_account_list w"
  define sb where "sb = state_of (identity w (initial cfg fs))"
  from assms(1) obtain acct envName tenant clientId
    where id: "identity w (initial cfg fs) = Next (acct, envName, tenant, clientId) sb"
    unfolding sb_def by (rule identity_not_exited)
  have keys: "get_value (config sb) ''AI_AGENT_ID'' = get_value cfg ''AI_AGENT_ID''"
    "get_value (config sb) ''AI_FOUNDRY_RESOURCE_NAME'' = get_value cfg ''AI_FOUNDRY_RESOURCE_NAME''"
    "get_value (config sb) ''AI_FOUNDRY_RESOURCE_GROUP'' = get_value cfg ''AI_FOUNDRY_RESOURCE_GROUP''"
    using identity_get_value [OF id] by simp_all
  have pc: "\<not> preconfigured (config sb)"
    using identity_preconfigured [OF id] assms(2) by simp
  then have d: "discover w acct sb = discover_resource w acct sb"
    by (simp add: discover_def)
  note run = run_after_discover [OF id, folded preprovision_def, unfolded d]
  have choice: "choose_resource (ui w) ?cs
             (get_value (config sb) ''AI_FOUNDRY_RESOURCE_NAME'')
             (get_value (config sb) ''AI_FOUNDRY_RESOURCE_GROUP'')
           = (Some (hd ?cs),
              name_warnings ?cs (get_value cfg ''AI_FOUNDRY_RESOURCE_NAME'')
              @ group_warnings ?cs (get_value cfg ''AI_FOUNDRY_RESOURCE_GROUP'')
              @ unable_to_prompt)"
    unfolding keys by (rule fallback_choice [OF assms(3-6)])
  from discover_resource_goes_on [OF choice, of acct]
  have c: "ListProjects (r_id (hd ?cs)) \<in> set (calls (snd (preprovision w cfg fs)))"
    and e: "set unable_to_prompt \<subseteq> set (events (snd (preprovision w cfg fs)))"
    by (simp_all add: run)
  have w1: "Warning ''[!]  Unable to prompt for selection (non-interactive host).''
           \<in> set (events (snd (preprovision w cfg fs)))"
    and w2: "Detail ''   Falling back to the first resource. To override, set:''
           \<in> set (events (snd (preprovision w cfg fs)))"
    using e by (simp_all add: unable_to_prompt_def)
  have saved: "config (snd (preprovision w cfg fs)) ''AI_FOUNDRY_RESOURCE_NAME'' = Some (r_name (hd ?cs))"
    if "projects_of w (r_id (hd ?cs)) = p # ps \<and> azd_write_ok w ''AI_FOUNDRY_RESOURCE_NAME''"
    using that discover_resource_first(1) [OF choice, of p ps acct] by (simp add: run)
  have ok: "fst (preprovision w cfg fs) = 0"
    if "projects_of w (r_id (hd ?cs)) = p # ps \<and>
          (\<not> IsNullOrWhiteSpace (get_value cfg ''AI_AGENT_ID'') \<or>
           (Get_AIFoundryAgents w (endpoint_url (hd ?cs) (projectName_of p)) = Agents (a # as) \<and>
            \<not> IsNullOrWhiteSpace (Some (a_name a))))"
    using that discover_resource_first(2) [OF choice, of p ps a as acct] by (simp add: run keys)
  note neg = Select_Index_negative [of ?cs "ui w"]
  show ?thesis
    using w1 w2 c saved ok neg by blast
qed

theorem fallback_to_first_candidate_witness:
  "\<not> exited (identity garbled_world (initial no_store no_files)) \<and>
   \<not> preconfigured no_store \<and>
   2 \<le> length (cognitiveservices_account_list garbled_world) \<and>
   matched_by_name (cognitiveservices_account_list garbled_world)
     (get_value no_store ''AI_FOUNDRY_RESOURCE_NAME'') = [] \<and>
   length (matched_by_group (cognitiveservices_account_list garbled_world)
     (get_value no_store ''AI_FOUNDRY_RESOURCE_GROUP'')) \<noteq> 1 \<and>
   Select_Index (cognitiveservices_account_list garbled_world) (ui garbled_world) < 0 \<and>
   readHost (ui garbled_world) = ReadHostReturns ''abc'' \<and>
   hd (cognitiveservices_account_list garbled_world) = candidate_X \<and>
   Warning ''[!]  Unable to prompt for selection (non-interactive host).''
     \<in> set (events (snd (preprovision garbled_world no_store no_files))) \<and>
   Detail ''   Falling back to the first resource. To override, set:''
     \<in> set (events (snd (preprovision garbled_world no_store no_files))) \<and>
   ListProjects (r_id (hd (cognitiveservices_account_list garbled_world)))
     \<in> set (calls (snd (preprovision garbled_world no_store no_files))) \<and>
   config (snd (preprovision garbled_world no_store no_files)) ''AI_FOUNDRY_RESOURCE_NAME''
     = Some (r_name (hd (cognitiveservices_account_list garbled_world))) \<and>
   fst (preprovision garbled_world no_store no_files) = 0"
proof -
  have passed: "\<not> exited (identity garbled_world (initial no_store no_files))"
    by code_simp
  have none: "\<not> preconfigured no_store"
    by code_simp
  have many: "2 \<le> length (cognitiveservices_account_list garbled_world)"
    by code_simp
  have name: "matched_by_name (cognitiveservices_account_list garbled_world)
     (get_value no_store ''AI_FOUNDRY_RESOURCE_NAME'') = []"
    by code_simp
  have grp: "length (matched_by_group (cognitiveservices_account_list garbled_world)
     (get_value no_store ''AI_FOUNDRY_RESOURCE_GROUP'')) \<noteq> 1"
    by code_simp
  have neg: "Select_Index (cognitiveservices_account_list garbled_world) (ui garbled_world) < 0"
    by code_simp
  have rd: "readHost (ui garbled_world) = ReadHostReturns ''abc''"
    by code_simp
  have first: "hd (cognitiveservices_account_list garbled_world) = candidate_X"
    by code_simp
  have project: "projects_of garbled_world (r_id (hd (cognitiveservices_account_list garbled_world)))
      = \<lparr>p_name = ''X/proj1''\<rparr> # []"
    by code_simp
  have written: "azd_write_ok garbled_world ''AI_FOUNDRY_RESOURCE_NAME''"
    by code_simp
  have agent: "Get_AIFoundryAgents garbled_world
       (endpoint_url (hd (cognitiveservices_account_list garbled_world))
          (projectName_of \<lparr>p_name = ''X/proj1''\<rparr>)) = Agents (\<lparr>a_name = ''agent-1''\<rparr> # []) \<and>
     \<not> IsNullOrWhiteSpace (Some (a_name \<lparr>a_name = ''agent-1''\<rparr>))"
    by code_simp
  from fallback_to_first_candidate [OF passed none many name grp neg,
      where p = "\<lparr>p_name = ''X/proj1''\<rparr>" and ps = "[]"
        and a = "\<lparr>a_name = ''agent-1''\<rparr>" and as = "[]"]
    passed none many name grp neg rd first project written agent
  show ?thesis
    by blast
qed

section \<open>Nothing to discover\<close>

lemma discover_no_resources:
  assumes "\<not> preconfigured (config s)" and "cognitiveservices_account_list w = []"
  shows "discover w acct s = Exit1 (emit [Error no_resources_message] (call ListResources s))"
  using assms by (simp add: discover_def discover_resource_def)

lemma no_resources_message_text:
  "no_resources_message =
     ''No Azure AI Foundry resources found in subscription.'' @ [CHR 0x0A, CHR 0x0A] @
     ''To use this application, you need an Azure AI Foundry resource with a project and agent.''
       @ [CHR 0x0A, CHR 0x0A] @
     ''Option 1 - Create a new AI Foundry resource:'' @ [CHR 0x0A] @
     ''  1. Visit https://ai.azure.com'' @ [CHR 0x0A] @
     ''  2. Create a new AI Foundry resource and project'' @ [CHR 0x0A] @
     ''  3. Create an agent in the project'' @ [CHR 0x0A] @
     ''  4. Run '' @ [CHR 0x27] @ ''azd up'' @ [CHR 0x27] @ '' again'' @ [CHR 0x0A, CHR 0x0A] @
     ''Option 2 - Manually configure (if resource is in different subscription):'' @ [CHR 0x0A] @
     ''  azd env set AI_FOUNDRY_RESOURCE_GROUP <resource-group>'' @ [CHR 0x0A] @
     ''  azd env set AI_FOUNDRY_RESOURCE_NAME <resource-name>'' @ [CHR 0x0A] @
     ''  azd env set AI_AGENT_ENDPOINT <endpoint>'' @ [CHR 0x0A] @
     ''  azd env set AI_AGENT_ID <agent-name>'' @ [CHR 0x0A, CHR 0x0A] @
     ''For more information, visit: https://learn.microsoft.com/azure/ai-foundry''"
  unfolding no_resources_message_def LF_def by (simp only: append.simps append_assoc)

text \<open>
  Claim C5. When no resource is pre-configured and the resource listing is empty, the
  script exits with code 1, makes no project or agent discovery call and leaves every
  file as it was. If the run got as far as the listing (prerequisites met and the app
  registered), the resource listing is the one call made after the registration, and the
  one thing the script prints, last of all, is the error that tells how to remedy the
  missing resource: create an AI Foundry resource, a project and an agent at
  \<open>https://ai.azure.com\<close> and run \<open>azd up\<close> again, or set the four \<open>AI_...\<close> keys by hand
  with \<open>azd env set\<close>.
\<close>

theorem no_resources_fails:
  assumes "\<not> preconfigured cfg" and "cognitiveservices_account_list w = []"
  shows "fst (preprovision w cfg fs) = 1 \<and>
         files (snd (preprovision w cfg fs)) = fs \<and>
         filter sub_discovery (calls (snd (preprovision w cfg fs))) = [] \<and>
         (\<not> exited (identity w (initial cfg fs))
            \<longrightarrow> calls (snd (preprovision w cfg fs))
                  = calls (state_of (identity w (initial cfg fs))) @ [ListResources] \<and>
                filter script_output (events (snd (preprovision w cfg fs))) =
                  [Error
                    (''No Azure AI Foundry resources found in subscription.'' @ [CHR 0x0A, CHR 0x0A] @
                     ''To use this application, you need an Azure AI Foundry resource with a project and agent.''
                       @ [CHR 0x0A, CHR 0x0A] @
                     ''Option 1 - Create a new AI Foundry resource:'' @ [CHR 0x0A] @
                     ''  1. Visit https://ai.azure.com'' @ [CHR 0x0A] @
                     ''  2. Create a new AI Foundry resource and project'' @ [CHR 0x0A] @
                     ''  3. Create an agent in the project'' @ [CHR 0x0A] @
                     ''  4. Run '' @ [CHR 0x27] @ ''azd up'' @ [CHR 0x27] @ '' again'' @ [CHR 0x0A, CHR 0x0A] @
                     ''Option 2 - Manually configure (if resource is in different subscription):'' @ [CHR 0x0A] @
                     ''  azd env set AI_FOUNDRY_RESOURCE_GROUP <resource-group>'' @ [CHR 0x0A] @
                     ''  azd env set AI_FOUNDRY_RESOURCE_NAME <resource-name>'' @ [CHR 0x0A] @
                     ''  azd env set AI_AGENT_ENDPOINT <endpoint>'' @ [CHR 0x0A] @
                     ''  azd env set AI_AGENT_ID <agent-name>'' @ [CHR 0x0A, CHR 0x0A] @
                     ''For more information, visit: https://learn.microsoft.com/azure/ai-foundry'')] \<and>
                last (events (snd (preprovision w cfg fs))) =
                  hd (filter script_output (events (snd (preprovision w cfg fs)))))"
proof (cases w "initial cfg fs" rule: identity_cases)
  case (stopped s')
  then show ?thesis
    using identity_Exit1(1,2) [OF stopped]
    by (simp add: preprovision_def run_identity_exit exited_def)
next
  case (resolved a e t c sc)
  have "\<not> preconfigured (config sc)"
    using identity_preconfigured [OF resolved] assms(1) by simp
  then have d: "discover w a sc = Exit1 (emit [Error no_resources_message] (call ListResources sc))"
    using assms(2) by (rule discover_no_resources)
  have R: "preprovision w cfg fs = (1, emit [Error no_resources_message] (call ListResources sc))"
    by (simp add: preprovision_def run_identity_next [OF resolved] d)
  have sc: "state_of (identity w (initial cfg fs)) = sc" "\<not> exited (identity w (initial cfg fs))"
    by (simp_all add: resolved state_of_def exited_def)
  have quiet: "filter script_output (events sc) = []"
    using identity_Next(3) [OF resolved] by simp
  have "fst (preprovision w cfg fs) = 1"
    and "files (snd (preprovision w cfg fs)) = fs"
    and "filter sub_discovery (calls (snd (preprovision w cfg fs))) = []"
    and "calls (snd (preprovision w cfg fs)) = calls (state_of (identity w (initial cfg fs))) @ [ListResources]"
    and "filter script_output (events (snd (preprovision w cfg fs))) = [Error no_resources_message]"
    and "last (events (snd (preprovision w cfg fs))) = Error no_resources_message"
    using identity_Next(1,2) [OF resolved] quiet by (simp_all add: R sc)
  then show ?thesis
    unfolding no_resources_message_text by simp
qed

theorem no_resources_fails_witness:
  "\<not> preconfigured no_store \<and>
   cognitiveservices_account_list world_without_resources = [] \<and>
   \<not> exited (identity world_without_resources (initial no_store no_files)) \<and>
   fst (preprovision world_without_resources no_store no_files) = 1 \<and>
   files (snd (preprovision world_without_resources no_store no_files)) = no_files \<and>
   filter sub_discovery (calls (snd (preprovision world_without_resources no_store no_files))) = [] \<and>
   filter script_output (events (snd (preprovision world_without_resources no_store no_files))) =
     [Error
       (''No Azure AI Foundry resources found in subscription.'' @ [CHR 0x0A, CHR 0x0A] @
        ''To use this application, you need an Azure AI Foundry resource with a project and agent.''
          @ [CHR 0x0A, CHR 0x0A] @
        ''Option 1 - Create a new AI Foundry resource:'' @ [CHR 0x0A] @
        ''  1. Visit https://ai.azure.com'' @ [CHR 0x0A] @
        ''  2. Create a new AI Foundry resource and project'' @ [CHR 0x0A] @
        ''  3. Create an agent in the project'' @ [CHR 0x0A] @
        ''  4. Run '' @ [CHR 0x27] @ ''azd up'' @ [CHR 0x27] @ '' again'' @ [CHR 0x0A, CHR 0x0A] @
        ''Option 2 - Manually configure (if resource is in different subscription):'' @ [CHR 0x0A] @
        ''  azd env set AI_FOUNDRY_RESOURCE_GROUP <resource-group>'' @ [CHR 0x0A] @
        ''  azd env set AI_FOUNDRY_RESOURCE_NAME <resource-name>'' @ [CHR 0x0A] @
        ''  azd env set AI_AGENT_ENDPOINT <endpoint>'' @ [CHR 0x0A] @
        ''  azd env set AI_AGENT_ID <agent-name>'' @ [CHR 0x0A, CHR 0x0A] @
        ''For more information, visit: https://learn.microsoft.com/azure/ai-foundry'')]"
proof -
  have none: "\<not> preconfigured no_store"
    by code_simp
  have empty: "cognitiveservices_account_list world_without_resources = []"
    by code_simp
  have reached: "\<not> exited (identity world_without_resources (initial no_store no_files))"
    by code_simp
  from no_resources_fails [OF none empty, of no_files] none empty reached show ?thesis
    by blast
qed

section \<open>No agent in the project\<close>

lemma resolve_agent_none:
  assumes "IsNullOrWhiteSpace (get_value (config s) ''AI_AGENT_ID'')"
      and "Get_AIFoundryAgents w ep = Agents []"
  shows "resolve_agent w pn ep s =
           Exit1 (emit (agent_not_configured pn) (call (ListAgents ep) s))"
  using assms by (simp add: resolve_agent_def)

lemma agent_not_configured_events:
  "Warning ''[!]  Agent not configured'' \<in> set (agent_not_configured pn)"
  "Detail ''  5. Run: azd env set AI_AGENT_ID <agent-name>'' \<in> set (agent_not_configured pn)"
  "last (es @ agent_not_configured pn) = Error agent_required_message"
  by (simp_all add: agent_not_configured_def)

lemma discover_no_agents:
  assumes "\<not> preconfigured (config s)"
      and "IsNullOrWhiteSpace (get_value (config s) ''AI_AGENT_ID'')"
      and "choose_resource (ui w) (cognitiveservices_account_list w)
             (get_value (config s) ''AI_FOUNDRY_RESOURCE_NAME'')
             (get_value (config s) ''AI_FOUNDRY_RESOURCE_GROUP'') = (Some r, ws)"
      and "projects_of w (r_id r) = p # ps"
      and "Get_AIFoundryAgents w (endpoint_url r (projectName_of p)) = Agents []"
  shows "\<exists>s'. discover w acct s = Exit1 s' \<and>
              Warning ''[!]  Agent not configured'' \<in> set (events s') \<and>
              Detail ''  5. Run: azd env set AI_AGENT_ID <agent-name>'' \<in> set (events s') \<and>
              last (events s') = Error agent_required_message \<and>
              ListAgents (endpoint_url r (projectName_of p)) \<in> set (calls s') \<and> files s' = files s"
proof -
  let ?s = "validate_permissions w acct (r_resourceGroup r)
                (azd_env_set w ''AI_AGENT_ENDPOINT'' (endpoint_url r (projectName_of p))
                   (azd_env_set w ''AI_FOUNDRY_RESOURCE_NAME'' (r_name r)
                      (azd_env_set w ''AI_FOUNDRY_RESOURCE_GROUP'' (r_resourceGroup r)
                         (call (ListProjects (r_id r)) (emit ws (call ListResources s))))))"
  have "config ?s ''AI_AGENT_ID'' = config s ''AI_AGENT_ID''"
    by simp
  then have "IsNullOrWhiteSpace (get_value (config ?s) ''AI_AGENT_ID'')"
    using assms(2) get_value_cong [of "config ?s" "''AI_AGENT_ID''" "config s"] by simp
  from resolve_agent_none [OF this assms(5), of "projectName_of p"]
  have d: "discover w acct s =
        Exit1 (emit (agent_not_configured (projectName_of p))
                 (call (ListAgents (endpoint_url r (projectName_of p))) ?s))"
    using assms(1)
    by (simp add: discover_def discover_resource_selected [OF assms(3,4)])
  show ?thesis
    unfolding d using agent_not_configured_events [where pn = "projectName_of p"]
    by simp
qed

lemma quiet_no_error:
  assumes "filter script_output es = []"
  shows "Error t \<notin> set es"
proof
  assume "Error t \<in> set es"
  then have "Error t \<in> set (filter script_output es)"
    by simp
  with assms show False
    by simp
qed

lemma validate_permissions_no_error:
  "Error t \<in> set (events (validate_permissions w acct rg s)) = (Error t \<in> set (events s))"
  by (auto simp: validate_permissions_def rbac_warning_def)

text \<open>
  Claim C6, as the code has it. Let no \<open>AI_AGENT_ID\<close> be configured and the identity
  steps succeed. On the discovery path (no pre-configured resource), when a resource and
  a project are selected and the agent listing of the derived endpoint is empty, the
  script lists the agents, prints the warning that the agent is not configured with the
  steps to set \<open>AI_AGENT_ID\<close>, ends on the error that \<open>AI_AGENT_ID\<close> is required, exits
  with code 1 and writes no file. On the pre-configured path an empty agent listing is
  not a failure: the script lists the agents of the configured endpoint, prints no error,
  leaves every key of the azd environment other than the two identity keys
  \<open>ENTRA_TENANT_ID\<close> and \<open>ENTRA_SPA_CLIENT_ID\<close> as it was before the run, so that
  \<open>AI_AGENT_ID\<close> stays as it was, and exits with code 0.
\<close>

theorem no_agents_outcome:
  assumes "IsNullOrWhiteSpace (get_value cfg ''AI_AGENT_ID'')"
      and "\<not> exited (identity w (initial cfg fs))"
  shows "(\<not> preconfigured cfg \<and>
          choose_resource (ui w) (cognitiveservices_account_list w)
             (get_value cfg ''AI_FOUNDRY_RESOURCE_NAME'')
             (get_value cfg ''AI_FOUNDRY_RESOURCE_GROUP'') = (Some r, ws) \<and>
          projects_of w (r_id r) = p # ps \<and>
          Get_AIFoundryAgents w (endpoint_url r (projectName_of p)) = Agents []
            \<longrightarrow> fst (preprovision w cfg fs) = 1 \<and>
                ListAgents (endpoint_url r (projectName_of p)) \<in> set (calls (snd (preprovision w cfg fs))) \<and>
                Warning ''[!]  Agent not configured'' \<in> set (events (snd (preprovision w cfg fs))) \<and>
                Detail ''  5. Run: azd env set AI_AGENT_ID <agent-name>''
                  \<in> set (events (snd (preprovision w cfg fs))) \<and>
                last (events (snd (preprovision w cfg fs))) =
                  Error (''AI_AGENT_ID is required. Please configure it and run '' @ [CHR 0x27] @
                         ''azd up'' @ [CHR 0x27] @ '' again.'') \<and>
                files (snd (preprovision w cfg fs)) = fs) \<and>
         (preconfigured cfg \<and> get_value cfg ''AI_AGENT_ENDPOINT'' = Some ep \<and>
          Get_AIFoundryAgents w ep = Agents []
            \<longrightarrow> fst (preprovision w cfg fs) = 0 \<and>
                calls (snd (preprovision w cfg fs))
                  = calls (state_of (identity w (initial cfg fs))) @ [ListAgents ep] \<and>
                Error t \<notin> set (events (snd (preprovision w cfg fs))) \<and>
                config (snd (preprovision w cfg fs)) ''AI_AGENT_ID'' = cfg ''AI_AGENT_ID'' \<and>
                (\<forall>k. k \<noteq> ''ENTRA_TENANT_ID'' \<longrightarrow> k \<noteq> ''ENTRA_SPA_CLIENT_ID''
                       \<longrightarrow> config (snd (preprovision w cfg fs)) k = cfg k))"
proof -
  define sb where "sb = state_of (identity w (initial cfg fs))"
  from assms(2) obtain acct envName tenant clientId
    where id: "identity w (initial cfg fs) = Next (acct, envName, tenant, clientId) sb"
    unfolding sb_def by (rule identity_not_exited)
  have keys: "get_value (config sb) ''AI_AGENT_ID'' = get_value cfg ''AI_AGENT_ID''"
    "get_value (config sb) ''AI_FOUNDRY_RESOURCE_NAME'' = get_value cfg ''AI_FOUNDRY_RESOURCE_NAME''"
    "get_value (config sb) ''AI_FOUNDRY_RESOURCE_GROUP'' = get_value cfg ''AI_FOUNDRY_RESOURCE_GROUP''"
    "get_value (config sb) ''AI_AGENT_ENDPOINT'' = get_value cfg ''AI_AGENT_ENDPOINT''"
    using identity_get_value [OF id] by simp_all
  have pc: "preconfigured (config sb) = preconfigured cfg"
    using identity_preconfigured [OF id] by simp
  have run: "preprovision w cfg fs =
               (case discover w acct sb of
                  Exit1 s' \<Rightarrow> (1, s')
                | Next u sc \<Rightarrow> (0, write_configuration w envName tenant clientId sc))"
    by (simp add: preprovision_def run_identity_next [OF id])
  have discovery: "fst (preprovision w cfg fs) = 1 \<and>
                ListAgents (endpoint_url r (projectName_of p)) \<in> set (calls (snd (preprovision w cfg fs))) \<and>
                Warning ''[!]  Agent not configured'' \<in> set (events (snd (preprovision w cfg fs))) \<and>
                Detail ''  5. Run: azd env set AI_AGENT_ID <agent-name>''
                  \<in> set (events (snd (preprovision w cfg fs))) \<and>
                last (events (snd (preprovision w cfg fs))) = Error agent_required_message \<and>
                files (snd (preprovision w cfg fs)) = fs"
    if h: "\<not> preconfigured cfg"
          "choose_resource (ui w) (cognitiveservices_account_list w)
             (get_value cfg ''AI_FOUNDRY_RESOURCE_NAME'')
             (get_value cfg ''AI_FOUNDRY_RESOURCE_GROUP'') = (Some r, ws)"
          "projects_of w (r_id r) = p # ps"
          "Get_AIFoundryAgents w (endpoint_url r (projectName_of p)) = Agents []"
  proof -
    have "\<exists>s'. discover w acct sb = Exit1 s' \<and>
              Warning ''[!]  Agent not configured'' \<in> set (events s') \<and>
              Detail ''  5. Run: azd env set AI_AGENT_ID <agent-name>'' \<in> set (events s') \<and>
              last (events s') = Error agent_required_message \<and>
              ListAgents (endpoint_url r (projectName_of p)) \<in> set (calls s') \<and> files s' = files sb"
      using h assms(1) by (intro discover_no_agents) (simp_all add: keys pc)
    then obtain s' where s': "discover w acct sb = Exit1 s'"
        "Warning ''[!]  Agent not configured'' \<in> set (events s')"
        "Detail ''  5. Run: azd env set AI_AGENT_ID <agent-name>'' \<in> set (events s')"
        "last (events s') = Error agent_required_message"
        "ListAgents (endpoint_url r (projectName_of p)) \<in> set (calls s')" "files s' = files sb"
      by blast
    have R: "preprovision w cfg fs = (1, s')"
      by (simp add: run s'(1))
    show ?thesis
      unfolding R using s'(2-6) identity_Next(1) [OF id] by simp
  qed
  have fast: "fst (preprovision w cfg fs) = 0 \<and>
                calls (snd (preprovision w cfg fs)) = calls sb @ [ListAgents ep] \<and>
                Error t \<notin> set (events (snd (preprovision w cfg fs))) \<and>
                config (snd (preprovision w cfg fs)) ''AI_AGENT_ID'' = cfg ''AI_AGENT_ID'' \<and>
                (\<forall>k. k \<noteq> ''ENTRA_TENANT_ID'' \<longrightarrow> k \<noteq> ''ENTRA_SPA_CLIENT_ID''
                       \<longrightarrow> config (snd (preprovision w cfg fs)) k = cfg k)"
    if h: "preconfigured cfg" "get_value cfg ''AI_AGENT_ENDPOINT'' = Some ep"
          "Get_AIFoundryAgents w ep = Agents []"
  proof -
    have d: "discover w acct sb = Next () (use_preconfigured w acct sb)"
      using h(1) by (simp add: discover_def pc)
    have u: "config (use_preconfigured w acct sb) = config sb"
            "calls (use_preconfigured w acct sb) = calls sb @ [ListAgents ep]"
      using h(2,3) assms(1) by (simp_all add: use_preconfigured_def Let_def keys)
    have "filter script_output (events sb) = []"
      using identity_Next(3) [OF id] by simp
    then have "Error t \<notin> set (events sb)"
      by (rule quiet_no_error)
    then have e: "Error t \<notin> set (events (use_preconfigured w acct sb))"
      using h(2,3) assms(1)
      by (simp add: use_preconfigured_def Let_def keys validate_permissions_no_error)
    have R: "preprovision w cfg fs =
        (0, write_configuration w envName tenant clientId (use_preconfigured w acct sb))"
      by (simp add: run d)
    have c: "config (snd (preprovision w cfg fs)) = config sb"
      by (simp add: R u write_configuration_def)
    have k: "config sb k = cfg k" if "k \<noteq> ''ENTRA_TENANT_ID''" "k \<noteq> ''ENTRA_SPA_CLIENT_ID''" for k
      using identity_Next(4) [OF id that] by simp
    have a: "config sb ''AI_AGENT_ID'' = cfg ''AI_AGENT_ID''"
      by (rule k) simp_all
    show ?thesis
      unfolding c using u(2) e k a by (simp add: R write_configuration_def)
  qed
  show ?thesis
    using discovery fast unfolding sb_def agent_required_message_def by blast
qed

theorem no_agents_outcome_witness:
  "IsNullOrWhiteSpace (get_value no_store ''AI_AGENT_ID'') \<and>
   \<not> exited (identity world_without_agents (initial no_store no_files)) \<and>
   \<not> preconfigured no_store \<and>
   fst (preprovision world_without_agents no_store no_files) = 1 \<and>
   last (events (snd (preprovision world_without_agents no_store no_files))) =
     Error (''AI_AGENT_ID is required. Please configure it and run '' @ [CHR 0x27] @
            ''azd up'' @ [CHR 0x27] @ '' again.'') \<and>
   files (snd (preprovision world_without_agents no_store no_files)) = no_files \<and>
   IsNullOrWhiteSpace (get_value preconfigured_store ''AI_AGENT_ID'') \<and>
   \<not> exited (identity world_without_agents (initial preconfigured_store no_files)) \<and>
   preconfigured preconfigured_store \<and>
   fst (preprovision world_without_agents preconfigured_store no_files) = 0 \<and>
   config (snd (preprovision world_without_agents preconfigured_store no_files)) ''AI_AGENT_ID''
     = preconfigured_store ''AI_AGENT_ID'' \<and>
   Error ''any'' \<notin> set (events (snd (preprovision world_without_agents preconfigured_store no_files)))"
proof -
  have blank: "IsNullOrWhiteSpace (get_value no_store ''AI_AGENT_ID'')"
    by code_simp
  have reached: "\<not> exited (identity world_without_agents (initial no_store no_files))"
    by code_simp
  have slow: "\<not> preconfigured no_store \<and>
          choose_resource (ui world_without_agents) (cognitiveservices_account_list world_without_agents)
             (get_value no_store ''AI_FOUNDRY_RESOURCE_NAME'')
             (get_value no_store ''AI_FOUNDRY_RESOURCE_GROUP'') = (Some candidate_X, unable_to_prompt) \<and>
          projects_of world_without_agents (r_id candidate_X) = \<lparr>p_name = ''X/proj1''\<rparr> # [] \<and>
          Get_AIFoundryAgents world_without_agents
            (endpoint_url candidate_X (projectName_of \<lparr>p_name = ''X/proj1''\<rparr>)) = Agents []"
    by code_simp
  have blank': "IsNullOrWhiteSpace (get_value preconfigured_store ''AI_AGENT_ID'')"
    by code_simp
  have reached': "\<not> exited (identity world_without_agents (initial preconfigured_store no_files))"
    by code_simp
  have fast: "preconfigured preconfigured_store \<and>
          get_value preconfigured_store ''AI_AGENT_ENDPOINT'' = Some configured_endpoint \<and>
          Get_AIFoundryAgents world_without_agents configured_endpoint = Agents []"
    by code_simp
  note discovery = no_agents_outcome [OF blank reached, where r = candidate_X and ws = unable_to_prompt
         and p = "\<lparr>p_name = ''X/proj1''\<rparr>" and ps = "[]", THEN conjunct1, THEN mp, OF slow]
  note fast_path = no_agents_outcome [OF blank' reached', where ep = configured_endpoint and t = "''any''",
         THEN conjunct2, THEN mp, OF fast]
  have none: "\<not> preconfigured no_store" and pre: "preconfigured preconfigured_store"
    using slow fast by blast+
  from discovery fast_path blank reached blank' reached' none pre
  show ?thesis
    by blast
qed

text \<open>The claim as the specification words it fails on the pre-configured path: no agent id
  is configured, the agent listing is empty, and the script exits with code 0.\<close>

theorem no_agents_preconfigured_counterexample:
  "IsNullOrWhiteSpace (get_value preconfigured_store ''AI_AGENT_ID'') \<and>
   Get_AIFoundryAgents world_without_agents configured_endpoint = Agents [] \<and>
   calls (snd (preprovision world_without_agents preconfigured_store no_files))
     = [RegisterApp ''ai-foundry-agent-dev'', ListAgents configured_endpoint] \<and>
   fst (preprovision world_without_agents preconfigured_store no_files) = 0"
  by code_simp

section \<open>The hash table of the azd environment file\<close>

lemma ps_eq_refl [simp]: "ps_eq k k"
  by (simp add: ps_eq_def)

lemma ps_eq_sym: "ps_eq a b = ps_eq b a"
  by (auto simp: ps_eq_def)

lemma ps_eq_trans: "ps_eq a b \<Longrightarrow> ps_eq b c \<Longrightarrow> ps_eq a c"
  by (simp add: ps_eq_def)

lemma ht_lookup_set:
  "ht_lookup (hashtable_set h key x) k = (if ps_eq key k then Some x else ht_lookup h k)"
  by (induction h) (auto simp: ps_eq_def)

lemma ht_lookup_set_unless_blank_other:
  "\<not> ps_eq key k \<Longrightarrow> ht_lookup (set_unless_blank h key x) k = ht_lookup h k"
  by (simp add: set_unless_blank_def ht_lookup_set split: option.splits)

lemma ht_lookup_set_unless_blank_some:
  "ht_lookup h k = Some v \<Longrightarrow> \<exists>v'. ht_lookup (set_unless_blank h key x) k = Some v'"
  by (simp add: set_unless_blank_def ht_lookup_set split: option.splits)

lemma load_existing_append:
  "load_existing h (xs @ ys) = load_existing (load_existing h xs) ys"
  by (induction xs arbitrary: h) simp_all

lemma ht_lookup_load_other:
  "list_all (other_key k) ls \<Longrightarrow> ht_lookup (load_existing h ls) k = ht_lookup h k"
  by (induction ls arbitrary: h) (auto simp: other_key_def ht_lookup_set split: option.splits)

lemma ht_lookup_load_some:
  "ht_lookup h k = Some v \<Longrightarrow> \<exists>v'. ht_lookup (load_existing h ls) k = Some v'"
proof (induction ls arbitrary: h v)
  case Nil
  then show ?case by simp
next
  case (Cons a ls)
  have "\<exists>v'. ht_lookup (case parse_env_line a of None \<Rightarrow> h | Some (k', x) \<Rightarrow> hashtable_set h k' x) k = Some v'"
    using Cons.prems by (simp add: ht_lookup_set split: option.splits)
  then obtain v' where
    "ht_lookup (case parse_env_line a of None \<Rightarrow> h | Some (k', x) \<Rightarrow> hashtable_set h k' x) k = Some v'"
    by blast
  from Cons.IH [OF this] show ?case by simp
qed

lemma ht_lookup_load_last:
  assumes "parse_env_line l = Some (k, v)" and "list_all (other_key k) post"
  shows "ht_lookup (load_existing h (pre @ l # post)) k = Some v"
  using assms by (simp add: load_existing_append ht_lookup_load_other ht_lookup_set)

lemma ht_lookup_load_member:
  assumes "l \<in> set ls" and "parse_env_line l = Some (k, v)"
  shows "\<exists>v'. ht_lookup (load_existing h ls) k = Some v'"
proof -
  from assms(1) obtain pre post where "ls = pre @ l # post"
    by (auto simp: in_set_conv_decomp)
  then have "load_existing h ls = load_existing (hashtable_set (load_existing h pre) k v) post"
    using assms(2) by (simp add: load_existing_append)
  moreover have "ht_lookup (hashtable_set (load_existing h pre) k v) k = Some v"
    by (simp add: ht_lookup_set)
  ultimately show ?thesis
    using ht_lookup_load_some by simp
qed

lemma ht_lookup_mem:
  "ht_lookup h k = Some v \<Longrightarrow> \<exists>k'. ps_eq k' k \<and> (k', v) \<in> set h"
  by (induction h k rule: ht_lookup.induct) (auto split: if_splits)

lemma set_insert_sorted: "set (insert_sorted le e xs) = insert e (set xs)"
  by (induction xs) auto

lemma set_Sort_Object: "set (Sort_Object le h) = set h"
  by (induction h) (simp_all add: Sort_Object_def set_insert_sorted)

lemma azd_env_file_line:
  assumes "ht_lookup (merged_vars existing cfg clientId tenant) k = Some v"
  shows "\<exists>k'. ps_eq k' k \<and> k' @ ''='' @ v \<in> set (azd_env_file w existing cfg clientId tenant)"
proof -
  from ht_lookup_mem [OF assms] obtain k'
    where "ps_eq k' k" "(k', v) \<in> set (merged_vars existing cfg clientId tenant)"
    by blast
  then have "env_line (k', v) \<in> set (azd_env_file w existing cfg clientId tenant)"
    by (simp add: azd_env_file_def set_Sort_Object)
  then show ?thesis
    using \<open>ps_eq k' k\<close> by (auto simp: env_line_def)
qed

lemma merged_vars_other:
  assumes "list_all (\<lambda>key. \<not> ps_eq key k) written_keys"
  shows "ht_lookup (merged_vars (Some ls) cfg clientId tenant) k = ht_lookup (load_existing [] ls) k"
  using assms
  by (simp add: merged_vars_def written_keys_def Let_def ht_lookup_set_unless_blank_other ht_lookup_set)

lemma merged_vars_some:
  assumes "ht_lookup (load_existing [] ls) k = Some v"
  shows "\<exists>v'. ht_lookup (merged_vars (Some ls) cfg clientId tenant) k = Some v'"
proof -
  let ?v1 = "hashtable_set (load_existing [] ls) ''ENTRA_SPA_CLIENT_ID'' clientId"
  let ?v2 = "hashtable_set ?v1 ''ENTRA_TENANT_ID'' tenant"
  let ?v3 = "set_unless_blank ?v2 ''AI_AGENT_ENDPOINT'' (get_value cfg ''AI_AGENT_ENDPOINT'')"
  let ?v4 = "set_unless_blank ?v3 ''AI_AGENT_ID'' (get_value cfg ''AI_AGENT_ID'')"
  let ?v5 = "set_unless_blank ?v4 ''AI_FOUNDRY_RESOURCE_GROUP'' (get_value cfg ''AI_FOUNDRY_RESOURCE_GROUP'')"
  let ?v6 = "set_unless_blank ?v5 ''AI_FOUNDRY_RESOURCE_NAME'' (get_value cfg ''AI_FOUNDRY_RESOURCE_NAME'')"
  have "\<exists>v'. ht_lookup ?v1 k = Some v'"
    using assms by (simp add: ht_lookup_set)
  then have "\<exists>v'. ht_lookup ?v2 k = Some v'"
    by (simp add: ht_lookup_set)
  then obtain x2 where "ht_lookup ?v2 k = Some x2" by blast
  from ht_lookup_set_unless_blank_some [OF this]
  obtain x3 where "ht_lookup ?v3 k = Some x3" by blast
  from ht_lookup_set_unless_blank_some [OF this]
  obtain x4 where "ht_lookup ?v4 k = Some x4" by blast
  from ht_lookup_set_unless_blank_some [OF this]
  obtain x5 where "ht_lookup ?v5 k = Some x5" by blast
  from ht_lookup_set_unless_blank_some [OF this]
  obtain x6 where "ht_lookup ?v6 k = Some x6" by blast
  then show ?thesis
    by (simp add: merged_vars_def Let_def)
qed

lemma merged_vars_clientId:
  "ht_lookup (merged_vars existing cfg clientId tenant) ''ENTRA_SPA_CLIENT_ID'' = Some clientId"
  by (simp add: merged_vars_def Let_def ht_lookup_set_unless_blank_other ht_lookup_set ps_eq_def to_lower_def)

section \<open>The files a completed run leaves\<close>

lemma resolve_agent_files: "files (state_of (resolve_agent w pn ep s)) = files s"
  using resolve_agent_state [of w pn ep s] by simp

lemma discover_files: "files (state_of (discover w acct s)) = files s"
proof (cases "preconfigured (config s)")
  case True
  then show ?thesis
    by (simp add: discover_def state_of_def use_preconfigured_def Let_def
          split: AgentsResult.splits list.splits)
next
  case False
  obtain sel ws where c: "choose_resource (ui w) (cognitiveservices_account_list w)
             (get_value (config s) ''AI_FOUNDRY_RESOURCE_NAME'')
             (get_value (config s) ''AI_FOUNDRY_RESOURCE_GROUP'') = (sel, ws)"
    by (cases "choose_resource (ui w) (cognitiveservices_account_list w)
             (get_value (config s) ''AI_FOUNDRY_RESOURCE_NAME'')
             (get_value (config s) ''AI_FOUNDRY_RESOURCE_GROUP'')")
  show ?thesis
  proof (cases sel)
    case None
    then show ?thesis
      using False c by (simp add: discover_def discover_resource_def state_of_def)
  next
    case (Some r)
    show ?thesis
    proof (cases "projects_of w (r_id r)")
      case Nil
      then show ?thesis
        using False c Some by (simp add: discover_def discover_resource_def state_of_def)
    next
      case (Cons p ps)
      show ?thesis
        using False
        by (simp add: discover_def discover_resource_selected [OF c [unfolded Some] Cons]
              resolve_agent_files)
    qed
  qed
qed

lemma identity_result_Some:
  assumes "identity_result w s = Some (acct, envName, tenant, clientId)"
  shows "identity w s = Next (acct, envName, tenant, clientId) (state_of (identity w s))"
  using assms by (cases "identity w s") (simp_all add: identity_result_def state_of_def)

lemma completed_run:
  assumes "identity_result w s = Some (acct, envName, tenant, clientId)" and "fst (run w s) = 0"
  shows "\<exists>sc. files sc = files s \<and> run w s = (0, write_configuration w envName tenant clientId sc)"
proof -
  note id = identity_result_Some [OF assms(1)]
  let ?sb = "state_of (identity w s)"
  show ?thesis
  proof (cases "discover w acct ?sb")
    case (Exit1 s')
    then show ?thesis
      using assms(2) by (simp add: run_identity_next [OF id])
  next
    case (Next u sc)
    have "files sc = files ?sb"
      using discover_files [of w acct ?sb] Next by (simp add: state_of_def)
    then have "files sc = files s \<and> run w s = (0, write_configuration w envName tenant clientId sc)"
      using Next identity_Next(1) [OF id] by (simp add: run_identity_next [OF id])
    then show ?thesis by blast
  qed
qed

lemma paths_differ:
  "envFilePath envName \<noteq> frontendEnvPath" "envFilePath envName \<noteq> backendEnvPath"
  "frontendEnvPath \<noteq> backendEnvPath"
  by (simp_all add: envFilePath_def frontendEnvPath_def backendEnvPath_def)

lemma written_files:
  assumes "identity_result w (initial cfg fs) = Some (acct, envName, tenant, clientId)"
      and "fst (preprovision w cfg fs) = 0"
  shows "files (snd (preprovision w cfg fs)) (envFilePath envName)
           = Some (azd_env_file w (fs (envFilePath envName)) (config (snd (preprovision w cfg fs)))
                     clientId tenant)"
    and "files (snd (preprovision w cfg fs)) frontendEnvPath = Some (frontend_env_file clientId tenant)"
    and "files (snd (preprovision w cfg fs)) backendEnvPath
           = Some (backend_env_file (config (snd (preprovision w cfg fs))) clientId tenant)"
proof -
  from completed_run [OF assms(1)] assms(2) obtain sc
    where sc: "files sc = fs"
      "preprovision w cfg fs = (0, write_configuration w envName tenant clientId sc)"
    by (auto simp: preprovision_def initial_def)
  show "files (snd (preprovision w cfg fs)) (envFilePath envName)
           = Some (azd_env_file w (fs (envFilePath envName)) (config (snd (preprovision w cfg fs)))
                     clientId tenant)"
    using paths_differ(1,2) [of envName] paths_differ(3) by (simp add: sc write_configuration_def)
  show "files (snd (preprovision w cfg fs)) frontendEnvPath = Some (frontend_env_file clientId tenant)"
    using paths_differ(1,2) [of envName] paths_differ(3) by (simp add: sc write_configuration_def)
  show "files (snd (preprovision w cfg fs)) backendEnvPath
           = Some (backend_env_file (config (snd (preprovision w cfg fs))) clientId tenant)"
    by (simp add: sc write_configuration_def)
qed

text \<open>
  Claim C7, as the code has it. A run that completes writes three files. The azd
  environment \<open>.env\<close> is merged with the file that was there: every key of a
  \<open>key=value\<close> line of the old file is the key of a line of the new file (keys are
  compared without regard to letter case, and a key keeps the spelling of its first
  line); a key that is none of the six keys the script writes keeps the value of the last
  line that set it; and the client id is in the file under the key
  \<open>ENTRA_SPA_CLIENT_ID\<close>. The files \<open>frontend/.env.local\<close> and
  \<open>backend/WebApp.Api/.env\<close> are written from their templates, whatever they held
  before.
\<close>

theorem merge_into_azd_env_only:
  assumes "identity_result w (initial cfg fs) = Some (acct, envName, tenant, clientId)"
      and "fst (preprovision w cfg fs) = 0"
      and "fs (envFilePath envName) = Some (pre @ l # post)"
      and "parse_env_line l = Some (k, v)"
  shows "(\<exists>written. files (snd (preprovision w cfg fs)) (envFilePath envName) = Some written \<and>
            (\<exists>k' v'. ps_eq k' k \<and> k' @ ''='' @ v' \<in> set written) \<and>
            (list_all (other_key k) post \<and> list_all (\<lambda>key. \<not> ps_eq key k) written_keys
               \<longrightarrow> (\<exists>k'. ps_eq k' k \<and> k' @ ''='' @ v \<in> set written)) \<and>
            (\<exists>k'. ps_eq k' ''ENTRA_SPA_CLIENT_ID'' \<and> k' @ ''='' @ clientId \<in> set written)) \<and>
         files (snd (preprovision w cfg fs)) frontendEnvPath = Some (frontend_env_file clientId tenant) \<and>
         files (snd (preprovision w cfg fs)) backendEnvPath
           = Some (backend_env_file (config (snd (preprovision w cfg fs))) clientId tenant)"
proof -
  let ?cfg = "config (snd (preprovision w cfg fs))"
  let ?ls = "pre @ l # post"
  let ?written = "azd_env_file w (Some ?ls) ?cfg clientId tenant"
  note wf = written_files [OF assms(1,2)]
  have azdfile: "files (snd (preprovision w cfg fs)) (envFilePath envName) = Some ?written"
    using wf(1) assms(3) by simp
  have "l \<in> set ?ls" by simp
  from ht_lookup_load_member [OF this assms(4)] obtain v0
    where "ht_lookup (load_existing [] ?ls) k = Some v0" by blast
  from merged_vars_some [OF this] obtain v'
    where "ht_lookup (merged_vars (Some ?ls) ?cfg clientId tenant) k = Some v'" by blast
  from azd_env_file_line [OF this]
  have key: "\<exists>k' v'. ps_eq k' k \<and> k' @ ''='' @ v' \<in> set ?written"
    by blast
  have val: "\<exists>k'. ps_eq k' k \<and> k' @ ''='' @ v \<in> set ?written"
    if "list_all (other_key k) post" "list_all (\<lambda>key. \<not> ps_eq key k) written_keys"
  proof -
    have "ht_lookup (merged_vars (Some ?ls) ?cfg clientId tenant) k = Some v"
      using merged_vars_other [OF that(2)] ht_lookup_load_last [OF assms(4) that(1)] by simp
    then show ?thesis by (rule azd_env_file_line)
  qed
  have cid: "\<exists>k'. ps_eq k' ''ENTRA_SPA_CLIENT_ID'' \<and> k' @ ''='' @ clientId \<in> set ?written"
    using merged_vars_clientId by (rule azd_env_file_line)
  show ?thesis
    using azdfile key val cid wf(2,3) by blast
qed

theorem merge_into_azd_env_only_witness:
  "(\<exists>written. files (snd (preprovision example_world preconfigured_store files_with_FOO)) (envFilePath ''dev'')
        = Some written \<and>
      (\<exists>k' v'. ps_eq k' ''FOO'' \<and> k' @ ''='' @ v' \<in> set written) \<and>
      (\<exists>k'. ps_eq k' ''FOO'' \<and> k' @ ''='' @ ''bar'' \<in> set written) \<and>
      (\<exists>k'. ps_eq k' ''ENTRA_SPA_CLIENT_ID'' \<and> k' @ ''='' @ ''abc'' \<in> set written)) \<and>
   files (snd (preprovision example_world preconfigured_store files_with_FOO)) frontendEnvPath
     = Some (frontend_env_file ''abc'' ''tenant-1'')"
proof -
  have id: "identity_result example_world (initial preconfigured_store files_with_FOO)
              = Some (example_account, ''dev'', ''tenant-1'', ''abc'')"
    by code_simp
  have completed: "fst (preprovision example_world preconfigured_store files_with_FOO) = 0"
    by code_simp
  have old: "files_with_FOO (envFilePath ''dev'') = Some ([] @ ''FOO=bar'' # [])"
    by code_simp
  have line: "parse_env_line ''FOO=bar'' = Some (''FOO'', ''bar'')"
    by code_simp
  have other: "list_all (other_key ''FOO'') [] \<and> list_all (\<lambda>key. \<not> ps_eq key ''FOO'') written_keys"
    by code_simp
  from merge_into_azd_env_only [OF id completed old line] other show ?thesis
    by blast
qed

text \<open>The claim as the specification words it fails for the two template files: a key
  \<open>FOO\<close> that was in \<open>frontend/.env.local\<close> and in \<open>backend/WebApp.Api/.env\<close> before
  the run is in neither after it, while the azd \<open>.env\<close> keeps it.\<close>

theorem template_files_replaced_counterexample:
  "files_with_FOO frontendEnvPath = Some [''FOO=bar''] \<and>
   files_with_FOO backendEnvPath = Some [''FOO=bar''] \<and>
   fst (preprovision example_world preconfigured_store files_with_FOO) = 0 \<and>
   files (snd (preprovision example_world preconfigured_store files_with_FOO)) frontendEnvPath
     = Some [''# Auto-generated by azd preprovision hook'',
             ''# Used by Vite dev server for local development'',
             ''VITE_ENTRA_SPA_CLIENT_ID=abc'',
             ''VITE_ENTRA_TENANT_ID=tenant-1''] \<and>
   files (snd (preprovision example_world preconfigured_store files_with_FOO)) backendEnvPath
     = Some [''# Auto-generated by azd preprovision hook'',
             ''# Used by ASP.NET Core for local development'',
             ''# .NET automatically loads .env files in Development environment'',
             ''AzureAd__Instance=https://login.microsoftonline.com/'',
             ''AzureAd__TenantId=tenant-1'',
             ''AzureAd__ClientId=abc'',
             ''AzureAd__Audience=api://abc'',
             [],
             ''# Azure AI Agent Service Configuration'',
             ''AI_AGENT_ENDPOINT=https://X.services.ai.azure.com/api/projects/proj1'',
             ''AI_AGENT_ID=agent-1''] \<and>
   files (snd (preprovision example_world preconfigured_store files_with_FOO)) (envFilePath ''dev'')
     = Some [''# Auto-generated - Do not commit'',
             ''# Local development environment variables'',
             [],
             ''AI_AGENT_ENDPOINT=https://X.services.ai.azure.com/api/projects/proj1'',
             ''AI_AGENT_ID=agent-1'',
             ''AI_FOUNDRY_RESOURCE_GROUP=rg1'',
             ''AI_FOUNDRY_RESOURCE_NAME=X'',
             ''ENTRA_SPA_CLIENT_ID=abc'',
             ''ENTRA_TENANT_ID=tenant-1'',
             ''FOO=bar'',
             []]"
  by code_simp

section \<open>Failing writes to the azd environment\<close>

lemma agree_get_value:
  "agree K s s' \<Longrightarrow> k \<notin> K \<Longrightarrow> get_value (config s') k = get_value (config s) k"
  by (rule get_value_cong) (auto simp: agree_def)

lemma agree_refl: "agree K s s"
  by (simp add: agree_def)

lemma agree_mono: "agree K s s' \<Longrightarrow> K \<subseteq> K' \<Longrightarrow> agree K' s s'"
  by (auto simp: agree_def)

lemma agree_emit: "agree K s s' \<Longrightarrow> agree K (emit es s) (emit es s')"
  by (simp add: agree_def)

lemma agree_call: "agree K s s' \<Longrightarrow> agree K (call c s) (call c s')"
  by (simp add: agree_def)

lemma agree_set: "agree K s s' \<Longrightarrow> k \<in> K \<Longrightarrow> agree K (azd_env_set w k v s) (azd_env_set w' k v' s')"
  by (auto simp: agree_def)

lemma agree_validate:
  "agree K s s' \<Longrightarrow>
   agree K (validate_permissions w acct rg s) (validate_permissions (w\<lparr>azd_write_ok := f\<rparr>) acct rg s')"
  by (simp add: agree_def validate_permissions_def)

lemma agree_fields:
  assumes "agree K s s'"
  shows "files s' = files s" "calls s' = calls s"
    and "k \<notin> K \<Longrightarrow> config s' k = config s k"
  using assms by (auto simp: agree_def)

lemma prerequisites_agree:
  "step_agree {''ENTRA_TENANT_ID''} (prerequisites w s) (prerequisites (w\<lparr>azd_write_ok := f\<rparr>) s)"
  by (auto simp: prerequisites_def configured_envName_def Let_def agree_def azd_env_set_def
        split: option.splits)

lemma register_app_agree:
  assumes "agree K s s'" and "''ENTRA_SPA_CLIENT_ID'' \<in> K"
  shows "step_agree K (register_app w e t s) (register_app (w\<lparr>azd_write_ok := f\<rparr>) e t s')"
  using agree_call [OF assms(1)] agree_emit agree_set [OF _ assms(2)]
  by (auto simp: register_app_def Let_def split: RegistrationResult.splits option.splits)

lemma step_agree_cases:
  assumes "step_agree K a b"
  obtains (stopped) s s' where "a = Exit1 s" "b = Exit1 s'" "agree K s s'"
        | (continued) x s s' where "a = Next x s" "b = Next x s'" "agree K s s'"
  using assms by (cases a; cases b) auto

lemma identity_agree:
  "step_agree {''ENTRA_TENANT_ID'', ''ENTRA_SPA_CLIENT_ID''}
     (identity w s) (identity (w\<lparr>azd_write_ok := f\<rparr>) s)"
proof (cases rule: step_agree_cases [OF prerequisites_agree [of w s f]])
  case (1 sa sa')
  then show ?thesis
    by (simp add: identity_def agree_mono)
next
  case (2 x sa sa')
  obtain a e t where x: "x = (a, e, t)" by (cases x)
  have "agree {''ENTRA_TENANT_ID'', ''ENTRA_SPA_CLIENT_ID''} sa sa'"
    using 2(3) by (rule agree_mono) simp
  then have "step_agree {''ENTRA_TENANT_ID'', ''ENTRA_SPA_CLIENT_ID''}
               (register_app w e t sa) (register_app (w\<lparr>azd_write_ok := f\<rparr>) e t sa')"
    by (rule register_app_agree) simp
  then show ?thesis
    using 2(1,2) unfolding x
    by (cases rule: step_agree_cases) (simp_all add: identity_def)
qed

lemma resolve_agent_agree:
  assumes "agree K s s'" and "''AI_AGENT_ID'' \<notin> K"
  shows "step_agree (insert ''AI_AGENT_ID'' K)
           (resolve_agent w pn ep s) (resolve_agent (w\<lparr>azd_write_ok := f\<rparr>) pn ep s')"
proof -
  have g: "get_value (config s') ''AI_AGENT_ID'' = get_value (config s) ''AI_AGENT_ID''"
    using assms by (rule agree_get_value)
  have a: "agree (insert ''AI_AGENT_ID'' K) s s'"
    using assms(1) by (rule agree_mono) auto
  show ?thesis
    using a agree_call [OF a] agree_emit agree_set agree_call
    by (auto simp: resolve_agent_def g Let_def split: AgentsResult.splits list.splits)
qed


lemma use_preconfigured_agree:
  assumes "agree K s s'" and "''AI_AGENT_ENDPOINT'' \<notin> K" and "''AI_FOUNDRY_RESOURCE_GROUP'' \<notin> K"
      and "''AI_AGENT_ID'' \<notin> K"
  shows "agree (insert ''AI_AGENT_ID'' K)
           (use_preconfigured w acct s) (use_preconfigured (w\<lparr>azd_write_ok := f\<rparr>) acct s')"
proof -
  note g = agree_get_value [OF assms(1,2)] agree_get_value [OF assms(1,3)] agree_get_value [OF assms(1,4)]
  have a: "agree (insert ''AI_AGENT_ID'' K) s s'"
    using assms(1) by (rule agree_mono) auto
  note v = agree_validate [OF a]
  show ?thesis
    using v agree_call [OF v] agree_set [OF agree_call [OF v]]
    by (auto simp: use_preconfigured_def g Let_def split: AgentsResult.splits list.splits)
qed

lemma discover_resource_agree:
  assumes "agree K s s'" and "''AI_FOUNDRY_RESOURCE_NAME'' \<notin> K"
      and "''AI_FOUNDRY_RESOURCE_GROUP'' \<notin> K" and "''AI_AGENT_ID'' \<notin> K"
  shows "step_agree (K \<union> {''AI_FOUNDRY_RESOURCE_GROUP'', ''AI_FOUNDRY_RESOURCE_NAME'',
                          ''AI_AGENT_ENDPOINT'', ''AI_AGENT_ID''})
           (discover_resource w acct s) (discover_resource (w\<lparr>azd_write_ok := f\<rparr>) acct s')"
proof -
  let ?w = "w\<lparr>azd_write_ok := f\<rparr>"
  let ?K = "K \<union> {''AI_FOUNDRY_RESOURCE_GROUP'', ''AI_FOUNDRY_RESOURCE_NAME'', ''AI_AGENT_ENDPOINT''}"
  let ?K' = "K \<union> {''AI_FOUNDRY_RESOURCE_GROUP'', ''AI_FOUNDRY_RESOURCE_NAME'',
                          ''AI_AGENT_ENDPOINT'', ''AI_AGENT_ID''}"
  note g = agree_get_value [OF assms(1,2)] agree_get_value [OF assms(1,3)]
  have a: "agree ?K s s'" and a': "agree ?K' s s'"
    using assms(1) by (rule agree_mono, auto)+
  obtain sel ws where c: "choose_resource (ui w) (cognitiveservices_account_list w)
             (get_value (config s) ''AI_FOUNDRY_RESOURCE_NAME'')
             (get_value (config s) ''AI_FOUNDRY_RESOURCE_GROUP'') = (sel, ws)"
    by (cases "choose_resource (ui w) (cognitiveservices_account_list w)
             (get_value (config s) ''AI_FOUNDRY_RESOURCE_NAME'')
             (get_value (config s) ''AI_FOUNDRY_RESOURCE_GROUP'')")
  then have c': "choose_resource (ui ?w) (cognitiveservices_account_list ?w)
             (get_value (config s') ''AI_FOUNDRY_RESOURCE_NAME'')
             (get_value (config s') ''AI_FOUNDRY_RESOURCE_GROUP'') = (sel, ws)"
    by (simp add: g)
  show ?thesis
  proof (cases sel)
    case None
    then show ?thesis
      using c c' agree_emit [OF agree_call [OF a']]
      by (simp add: discover_resource_def g)
  next
    case (Some r)
    show ?thesis
    proof (cases "projects_of w (r_id r)")
      case Nil
      then show ?thesis
        using c c' Some agree_emit [OF agree_call [OF agree_emit [OF agree_call [OF a']]]]
        by (simp add: discover_resource_def g)
    next
      case (Cons p ps)
      then have Cons': "projects_of ?w (r_id r) = p # ps" by simp
      let ?ep = "endpoint_url r (projectName_of p)"
      let ?t = "\<lambda>w s. validate_permissions w acct (r_resourceGroup r)
                (azd_env_set w ''AI_AGENT_ENDPOINT'' ?ep
                   (azd_env_set w ''AI_FOUNDRY_RESOURCE_NAME'' (r_name r)
                      (azd_env_set w ''AI_FOUNDRY_RESOURCE_GROUP'' (r_resourceGroup r)
                         (call (ListProjects (r_id r)) (emit ws (call ListResources s))))))"
      have "agree ?K (call (ListProjects (r_id r)) (emit ws (call ListResources s)))
                     (call (ListProjects (r_id r)) (emit ws (call ListResources s')))"
        by (intro agree_call agree_emit a)
      then have "agree ?K (?t w s) (?t ?w s')"
        by (intro agree_validate agree_set) simp_all
      moreover have "''AI_AGENT_ID'' \<notin> ?K"
        using assms(4) by simp
      ultimately have "step_agree (insert ''AI_AGENT_ID'' ?K)
           (resolve_agent w (projectName_of p) ?ep (?t w s))
           (resolve_agent ?w (projectName_of p) ?ep (?t ?w s'))"
        by (rule resolve_agent_agree)
      moreover have "insert ''AI_AGENT_ID'' ?K = ?K'" by auto
      ultimately show ?thesis
        using discover_resource_selected [OF c [unfolded Some] Cons]
              discover_resource_selected [OF c' [unfolded Some] Cons']
        by simp
    qed
  qed
qed


lemma discover_agree:
  assumes "agree {''ENTRA_TENANT_ID'', ''ENTRA_SPA_CLIENT_ID''} s s'"
  shows "step_agree all_keys (discover w acct s) (discover (w\<lparr>azd_write_ok := f\<rparr>) acct s')"
proof -
  let ?K = "{''ENTRA_TENANT_ID'', ''ENTRA_SPA_CLIENT_ID''}"
  have pc: "preconfigured (config s') = preconfigured (config s)"
    by (rule preconfigured_cong) (simp_all add: agree_fields(3) [OF assms])
  show ?thesis
  proof (cases "preconfigured (config s)")
    case True
    have "agree (insert ''AI_AGENT_ID'' ?K)
           (use_preconfigured w acct s) (use_preconfigured (w\<lparr>azd_write_ok := f\<rparr>) acct s')"
      using assms by (rule use_preconfigured_agree) simp_all
    then have "agree all_keys
           (use_preconfigured w acct s) (use_preconfigured (w\<lparr>azd_write_ok := f\<rparr>) acct s')"
      by (rule agree_mono) (simp add: all_keys_def)
    then show ?thesis
      using True by (simp add: discover_def pc)
  next
    case False
    have "step_agree (?K \<union> {''AI_FOUNDRY_RESOURCE_GROUP'', ''AI_FOUNDRY_RESOURCE_NAME'',
                          ''AI_AGENT_ENDPOINT'', ''AI_AGENT_ID''})
           (discover_resource w acct s) (discover_resource (w\<lparr>azd_write_ok := f\<rparr>) acct s')"
      using assms by (rule discover_resource_agree) simp_all
    moreover have "?K \<union> {''AI_FOUNDRY_RESOURCE_GROUP'', ''AI_FOUNDRY_RESOURCE_NAME'',
                          ''AI_AGENT_ENDPOINT'', ''AI_AGENT_ID''} = all_keys"
      by (auto simp: all_keys_def)
    ultimately show ?thesis
      using False by (simp add: discover_def pc)
  qed
qed

text \<open>
  Claim C8, as the code has it. The script never looks at the outcome of \<open>azd env set\<close>:
  whatever writes fail (the world with any other write oracle \<open>f\<close>), the run does not
  abort on them. The exit code and the provider calls are the same, and so is
  \<open>frontend/.env.local\<close>, which is built from the client id and tenant id held in
  memory, whether or not they were saved.
\<close>

theorem write_failures_unnoticed:
  "fst (preprovision (w\<lparr>azd_write_ok := f\<rparr>) cfg fs) = fst (preprovision w cfg fs) \<and>
   calls (snd (preprovision (w\<lparr>azd_write_ok := f\<rparr>) cfg fs)) = calls (snd (preprovision w cfg fs)) \<and>
   files (snd (preprovision (w\<lparr>azd_write_ok := f\<rparr>) cfg fs)) frontendEnvPath
     = files (snd (preprovision w cfg fs)) frontendEnvPath"
proof (cases rule: step_agree_cases [OF identity_agree [of w "initial cfg fs" f]])
  case (1 s s')
  note st = 1
  show ?thesis
    using agree_fields(1,2) [OF st(3)]
    by (simp add: preprovision_def run_identity_exit [OF st(1)] run_identity_exit [OF st(2)])
next
  case (2 x s s')
  note co = 2
  obtain a e t c where x: "x = (a, e, t, c)" by (cases x)
  note r = run_identity_next [OF co(1) [unfolded x]] run_identity_next [OF co(2) [unfolded x]]
  from discover_agree [OF co(3), of w a f] show ?thesis
  proof (cases rule: step_agree_cases)
    case (stopped sa sa')
    then show ?thesis
      using agree_fields(1,2) [OF stopped(3)]
      by (simp add: preprovision_def r)
  next
    case (continued u sa sa')
    then show ?thesis
      using agree_fields(1,2) [OF continued(3)] paths_differ(3)
      by (simp add: preprovision_def r write_configuration_def)
  qed
qed

theorem write_failures_unnoticed_witness:
  "fst (preprovision (example_world\<lparr>azd_write_ok := (\<lambda>key. False)\<rparr>) no_store no_files)
     = fst (preprovision example_world no_store no_files) \<and>
   calls (snd (preprovision (example_world\<lparr>azd_write_ok := (\<lambda>key. False)\<rparr>) no_store no_files))
     = calls (snd (preprovision example_world no_store no_files)) \<and>
   files (snd (preprovision (example_world\<lparr>azd_write_ok := (\<lambda>key. False)\<rparr>) no_store no_files))
       frontendEnvPath
     = files (snd (preprovision example_world no_store no_files)) frontendEnvPath"
  by (rule write_failures_unnoticed)

text \<open>The claim as the specification words it fails: when every write to the azd
  environment fails, the script still exits with code 0 and writes the files, with a
  client id whose write failed.\<close>

theorem write_failure_counterexample:
  "azd_write_ok world_write_fails ''ENTRA_TENANT_ID'' = False \<and>
   azd_write_ok world_write_fails ''ENTRA_SPA_CLIENT_ID'' = False \<and>
   azd_write_ok world_write_fails ''AI_AGENT_ENDPOINT'' = False \<and>
   fst (preprovision world_write_fails no_store no_files) = 0 \<and>
   AzdSetFailed ''ENTRA_TENANT_ID'' \<in> set (events (snd (preprovision world_write_fails no_store no_files))) \<and>
   AzdSetFailed ''ENTRA_SPA_CLIENT_ID'' \<in> set (events (snd (preprovision world_write_fails no_store no_files))) \<and>
   AzdSetFailed ''AI_AGENT_ENDPOINT'' \<in> set (events (snd (preprovision world_write_fails no_store no_files))) \<and>
   files (snd (preprovision world_write_fails no_store no_files)) frontendEnvPath
     = Some [''# Auto-generated by azd preprovision hook'',
             ''# Used by Vite dev server for local development'',
             ''VITE_ENTRA_SPA_CLIENT_ID=abc'',
             ''VITE_ENTRA_TENANT_ID=tenant-1''] \<and>
   files (snd (preprovision world_write_fails no_store no_files)) (envFilePath ''dev'') \<noteq> None \<and>
   files (snd (preprovision world_write_fails no_store no_files)) backendEnvPath \<noteq> None"
  by code_simp

section \<open>The pre-configured path\<close>

lemma use_preconfigured_calls:
  "filter resource_discovery (calls (use_preconfigured w acct s)) = filter resource_discovery (calls s)"
  by (simp add: use_preconfigured_def Let_def split: AgentsResult.splits list.splits)

text \<open>When the test of lines 166--168 holds of the values read at lines 161--163, no
  resource and no project is listed.\<close>

lemma fast_path_no_discovery:
  assumes "preconfigured cfg"
  shows "filter resource_discovery (calls (snd (preprovision w cfg fs))) = []"
proof (cases w "initial cfg fs" rule: identity_cases)
  case (stopped s')
  then show ?thesis
    using identity_Exit1(3) [OF stopped]
    by (simp add: preprovision_def run_identity_exit)
next
  case (resolved a e t c sb)
  have "preconfigured (config sb)"
    using identity_preconfigured [OF resolved] assms by simp
  then show ?thesis
    using identity_Next(2) [OF resolved]
    by (simp add: preprovision_def run_identity_next [OF resolved] discover_def
          write_configuration_def use_preconfigured_calls)
qed

lemma discover_keeps_agent:
  assumes "\<not> IsNullOrWhiteSpace (get_value (config s) ''AI_AGENT_ID'')"
  shows "config (state_of (discover w acct s)) ''AI_AGENT_ID'' = config s ''AI_AGENT_ID''"
proof (cases "preconfigured (config s)")
  case True
  then show ?thesis
    using assms by (simp add: discover_def state_of_def use_preconfigured_def Let_def)
next
  case False
  obtain sel ws where c: "choose_resource (ui w) (cognitiveservices_account_list w)
             (get_value (config s) ''AI_FOUNDRY_RESOURCE_NAME'')
             (get_value (config s) ''AI_FOUNDRY_RESOURCE_GROUP'') = (sel, ws)"
    by (cases "choose_resource (ui w) (cognitiveservices_account_list w)
             (get_value (config s) ''AI_FOUNDRY_RESOURCE_NAME'')
             (get_value (config s) ''AI_FOUNDRY_RESOURCE_GROUP'')")
  show ?thesis
  proof (cases sel)
    case None
    then show ?thesis
      using False c by (simp add: discover_def discover_resource_def state_of_def)
  next
    case (Some r)
    show ?thesis
    proof (cases "projects_of w (r_id r)")
      case Nil
      then show ?thesis
        using False c Some by (simp add: discover_def discover_resource_def state_of_def)
    next
      case (Cons p ps)
      let ?t = "validate_permissions w acct (r_resourceGroup r)
                (azd_env_set w ''AI_AGENT_ENDPOINT'' (endpoint_url r (projectName_of p))
                   (azd_env_set w ''AI_FOUNDRY_RESOURCE_NAME'' (r_name r)
                      (azd_env_set w ''AI_FOUNDRY_RESOURCE_GROUP'' (r_resourceGroup r)
                         (call (ListProjects (r_id r)) (emit ws (call ListResources s))))))"
      have k: "config ?t ''AI_AGENT_ID'' = config s ''AI_AGENT_ID''"
        by simp
      have "\<not> IsNullOrWhiteSpace (get_value (config ?t) ''AI_AGENT_ID'')"
        using assms get_value_cong [of "config ?t" "''AI_AGENT_ID''" "config s"] k by simp
      then have "resolve_agent w (projectName_of p) (endpoint_url r (projectName_of p)) ?t = Next () ?t"
        by (simp add: resolve_agent_def)
      then show ?thesis
        using False k
        by (simp add: discover_def discover_resource_selected [OF c [unfolded Some] Cons] state_of_def)
    qed
  qed
qed

text \<open>An agent id that the read of line 164 returns is never overwritten.\<close>

lemma agent_kept:
  assumes "\<not> IsNullOrWhiteSpace (get_value cfg ''AI_AGENT_ID'')"
  shows "config (snd (preprovision w cfg fs)) ''AI_AGENT_ID'' = cfg ''AI_AGENT_ID''"
proof (cases w "initial cfg fs" rule: identity_cases)
  case (stopped s')
  then show ?thesis
    using identity_Exit1(4) [OF stopped, of "''AI_AGENT_ID''"]
    by (simp add: preprovision_def run_identity_exit)
next
  case (resolved a e t c sb)
  have k: "config sb ''AI_AGENT_ID'' = cfg ''AI_AGENT_ID''"
    using identity_Next(4) [OF resolved, of "''AI_AGENT_ID''"] by simp
  have "\<not> IsNullOrWhiteSpace (get_value (config sb) ''AI_AGENT_ID'')"
    using assms get_value_cong [of "config sb" "''AI_AGENT_ID''" cfg] k by simp
  from discover_keeps_agent [OF this, of w a] show ?thesis
    using k
    by (cases "discover w a sb")
       (simp_all add: preprovision_def run_identity_next [OF resolved] state_of_def
          write_configuration_def)
qed

text \<open>
  Claim C1 does not hold of the script. The reads of lines 161--164 drop every line of
  azd's output that matches \<open>ERROR\<close>, letter case ignored, and with it a stored value that
  holds these letters. With resource group, resource name and endpoint configured and
  \<open>AI_AGENT_ID\<close> set to \<open>error-bot\<close>, line 164 reads nothing, line 190 takes the branch of
  the agent discovery, and lines 197--203 replace the configured agent by the first agent
  of the listing: the run exits with code 0 and the agent id after it is \<open>agent-1\<close>. With
  the resource name set to \<open>terror-lab\<close> the test of lines 166--168 fails, the resources
  and projects are listed again, and the configured name is replaced by the selected
  resource's.
\<close>

theorem pinned_agent_overwritten:
  "error_bot_store ''AI_FOUNDRY_RESOURCE_GROUP'' = Some ''rg1'' \<and>
   error_bot_store ''AI_FOUNDRY_RESOURCE_NAME'' = Some ''X'' \<and>
   error_bot_store ''AI_AGENT_ENDPOINT'' = Some ''https://X.services.ai.azure.com/api/projects/proj1'' \<and>
   error_bot_store ''AI_AGENT_ID'' = Some ''error-bot'' \<and>
   get_value error_bot_store ''AI_AGENT_ID'' = None \<and>
   fst (preprovision example_world error_bot_store no_files) = 0 \<and>
   calls (snd (preprovision example_world error_bot_store no_files))
     = [RegisterApp ''ai-foundry-agent-dev'',
        ListAgents ''https://X.services.ai.azure.com/api/projects/proj1''] \<and>
   config (snd (preprovision example_world error_bot_store no_files)) ''AI_AGENT_ID'' = Some ''agent-1'' \<and>
   terror_lab_store ''AI_FOUNDRY_RESOURCE_GROUP'' = Some ''rg1'' \<and>
   terror_lab_store ''AI_FOUNDRY_RESOURCE_NAME'' = Some ''terror-lab'' \<and>
   terror_lab_store ''AI_AGENT_ENDPOINT'' = Some ''https://X.services.ai.azure.com/api/projects/proj1'' \<and>
   get_value terror_lab_store ''AI_FOUNDRY_RESOURCE_NAME'' = None \<and>
   fst (preprovision example_world terror_lab_store no_files) = 0 \<and>
   calls (snd (preprovision example_world terror_lab_store no_files))
     = [RegisterApp ''ai-foundry-agent-dev'', ListResources, ListProjects ''/x'',
        ListAgents ''https://X.services.ai.azure.com/api/projects/proj1''] \<and>
   config (snd (preprovision example_world terror_lab_store no_files)) ''AI_FOUNDRY_RESOURCE_NAME''
     = Some ''X''"
  by code_simp

section \<open>The chat endpoint\<close>






end
